theory Spec2Isabelle
  imports Main
begin

section \<open>Python values, exceptions and results\<close>

text \<open>
  The module \<^verbatim>\<open>torch/distributed/debug.py\<close> is effectful Python. Every raise of the
  source is a value of \<open>py_error\<close>; an operation either returns, raises, or never returns
  (a blocking call that is never released). A Python \<^verbatim>\<open>str\<close> is represented by its UTF-8
  encoding, so \<^verbatim>\<open>str\<close> and \<^verbatim>\<open>bytes\<close> are both \<open>string\<close> (a list of 8-bit characters),
  concatenation is \<open>@\<close>, and encoding a \<^verbatim>\<open>str\<close> is the identity.
\<close>

datatype py_error =
    KeyError string
  | ValueError string
  | UnicodeDecodeError string
  | DistStoreError
  | BindError
  | RequestException string

datatype 'a result = Return 'a | Raise py_error | Blocked

fun bind_r :: "'a result \<Rightarrow> ('a \<Rightarrow> 'b result) \<Rightarrow> 'b result" where
  "bind_r (Return x) f = f x"
| "bind_r (Raise e) f = Raise e"
| "bind_r Blocked f = Blocked"

subsection \<open>Formatting an integer in an f-string\<close>

definition digit_char :: "nat \<Rightarrow> char" where
  "digit_char d = ''0123456789'' ! d"

fun str_nat :: "nat \<Rightarrow> string" where
  "str_nat n = (if n < 10 then [digit_char n] else str_nat (n div 10) @ [digit_char (n mod 10)])"

declare str_nat.simps [simp del]

definition str_int :: "int \<Rightarrow> string" where
  "str_int i = (if i < 0 then CHR ''-'' # str_nat (nat (- i)) else str_nat (nat i))"

text \<open>\<^verbatim>\<open>range(n)\<close> for a Python int \<open>n\<close>: empty when \<open>n \<le> 0\<close>.\<close>

definition range_py :: "int \<Rightarrow> int list" where
  "range_py n = map int [0..<nat n]"

subsection \<open>Decoding bytes\<close>

text \<open>
  \<^verbatim>\<open>bytes.decode()\<close> is strict UTF-8: it raises \<^verbatim>\<open>UnicodeDecodeError\<close> unless the bytes are
  well-formed (no overlong forms, no surrogates, nothing above U+10FFFF). With \<^verbatim>\<open>str\<close>
  represented by its encoding, a successful decode returns the same bytes.
\<close>

definition cont_byte :: "char \<Rightarrow> bool" where
  "cont_byte c = (128 \<le> (of_char c :: nat) \<and> (of_char c :: nat) \<le> 191)"

definition byte_in :: "nat \<Rightarrow> nat \<Rightarrow> char \<Rightarrow> bool" where
  "byte_in lo hi c = (lo \<le> (of_char c :: nat) \<and> (of_char c :: nat) \<le> hi)"

fun utf8_valid :: "string \<Rightarrow> bool" where
  "utf8_valid [] = True"
| "utf8_valid (c # cs) =
     (if byte_in 0 127 c then utf8_valid cs
      else if byte_in 194 223 c then
        (case cs of c1 # r \<Rightarrow> cont_byte c1 \<and> utf8_valid r | _ \<Rightarrow> False)
      else if byte_in 224 239 c then
        (case cs of c1 # c2 # r \<Rightarrow>
           (if byte_in 224 224 c then byte_in 160 191 c1
            else if byte_in 237 237 c then byte_in 128 159 c1
            else cont_byte c1) \<and> cont_byte c2 \<and> utf8_valid r
         | _ \<Rightarrow> False)
      else if byte_in 240 244 c then
        (case cs of c1 # c2 # c3 # r \<Rightarrow>
           (if byte_in 240 240 c then byte_in 144 191 c1
            else if byte_in 244 244 c then byte_in 128 143 c1
            else cont_byte c1) \<and> cont_byte c2 \<and> cont_byte c3 \<and> utf8_valid r
         | _ \<Rightarrow> False)
      else False)"

definition decode :: "string \<Rightarrow> string result" where
  "decode b = (if utf8_valid b then Return b else Raise (UnicodeDecodeError b))"

section \<open>Module state and module initialisation\<close>

text \<open>
  The world a process acts on: the handler registry of the process (kept by the native
  extension), the store servers reachable over the network (by host and port, each a
  key-value map of bytes), the module globals \<^verbatim>\<open>_worker_server\<close> (its port, once
  constructed) and \<^verbatim>\<open>_p\<close> (whether the subprocess was started), and the trace of effects
  in program order.
\<close>

datatype handler = Handler string

datatype event =
    RegisterHandler string
  | WorkerServerStart nat
  | StoreSet "string \<times> int" string string
  | StoreGet "string \<times> int" "string list"
  | ProcessStart

record world =
  handlers :: "string \<rightharpoonup> handler"
  net :: "(string \<times> int) \<rightharpoonup> (string \<rightharpoonup> string)"
  worker_server :: "nat option"
  interactive :: bool
  trace :: "event list"

record config =
  MASTER_ADDR :: string
  MASTER_PORT :: int
  RANK :: int
  WORLD_SIZE :: int

text \<open>
  Modelled from the spec: \<^verbatim>\<open>_register_handler\<close> is native code of the repository that is
  not among the sources. Section 4.3: the registry maps a handler name to a handler, and
  the last registration for a name wins.
\<close>

definition register_handler :: "string \<Rightarrow> handler \<Rightarrow> world \<Rightarrow> world" where
  "register_handler name h w =
     w\<lparr>handlers := (handlers w)(name \<mapsto> h), trace := trace w @ [RegisterHandler name]\<rparr>"

definition environ_get :: "(string \<rightharpoonup> string) \<Rightarrow> string \<Rightarrow> string result" where
  "environ_get env k = (case env k of None \<Rightarrow> Raise (KeyError k) | Some v \<Rightarrow> Return v)"

text \<open>
  \<^verbatim>\<open>int(os.environ[k])\<close>. The builtin \<^verbatim>\<open>int\<close> on a \<^verbatim>\<open>str\<close> is a parameter \<open>py_int\<close>:
  \<open>None\<close> where it raises \<^verbatim>\<open>ValueError\<close>.
\<close>

definition environ_int :: "(string \<Rightarrow> int option) \<Rightarrow> (string \<rightharpoonup> string) \<Rightarrow> string \<Rightarrow> int result" where
  "environ_int py_int env k =
     bind_r (environ_get env k)
       (\<lambda>v. case py_int v of None \<Rightarrow> Raise (ValueError v) | Some i \<Rightarrow> Return i)"

text \<open>
  Importing the module (lines 35 to 40): the handler is registered, then the four
  environment variables are read in the order of the source. The result is the module's
  four globals, or the first exception, which aborts the import.
\<close>

definition module_init ::
  "(string \<Rightarrow> int option) \<Rightarrow> (string \<rightharpoonup> string) \<Rightarrow> world \<Rightarrow> config result \<times> world" where
  "module_init py_int env w =
     (let w1 = register_handler ''torch_profile'' (Handler ''_torch_profile'') w in
      (bind_r (environ_get env ''MASTER_ADDR'') (\<lambda>a.
       bind_r (environ_int py_int env ''MASTER_PORT'') (\<lambda>p.
       bind_r (environ_int py_int env ''RANK'') (\<lambda>r.
       bind_r (environ_int py_int env ''WORLD_SIZE'') (\<lambda>n.
         Return \<lparr>MASTER_ADDR = a, MASTER_PORT = p, RANK = r, WORLD_SIZE = n\<rparr>)))),
       w1))"

text \<open>
  A plain decimal numeral (an optional sign, then ASCII digits) is a string the builtin
  \<^verbatim>\<open>int\<close> accepts, with this value. \<open>dec_int\<close> instantiates \<open>py_int\<close> at concrete
  inputs: at such numerals, and at a word of letters, which the builtin rejects as well.
\<close>

definition digit_val :: "char \<Rightarrow> nat option" where
  "digit_val c = (if byte_in 48 57 c then Some (of_char c - 48) else None)"

fun dec_nat :: "nat \<Rightarrow> string \<Rightarrow> nat option" where
  "dec_nat acc [] = Some acc"
| "dec_nat acc (c # cs) =
     (case digit_val c of None \<Rightarrow> None | Some d \<Rightarrow> dec_nat (10 * acc + d) cs)"

definition dec_int :: "string \<Rightarrow> int option" where
  "dec_int s =
     (case s of
        [] \<Rightarrow> None
      | c # cs \<Rightarrow>
          if c = CHR ''-'' then (if cs = [] then None else map_option (\<lambda>n. - int n) (dec_nat 0 cs))
          else if c = CHR ''+'' then (if cs = [] then None else map_option int (dec_nat 0 cs))
          else map_option int (dec_nat 0 s))"

section \<open>The rendezvous store\<close>

text \<open>
  A store handle is a TCP client of the server at a host and port, or a prefix-scoped view
  of another handle.
\<close>

datatype store = TCPStore string int | PrefixStore string store

fun store_loc :: "store \<Rightarrow> string \<times> int" where
  "store_loc (TCPStore h p) = (h, p)"
| "store_loc (PrefixStore pre s) = store_loc s"

text \<open>
  Modelled from the spec: \<^verbatim>\<open>dist.PrefixStore\<close> is code of the repository that is not among
  the sources. Section 6: the key space is \<^verbatim>\<open><prefix>/rank<N>\<close>, so a prefix-scoped view
  passes the key \<open>k\<close> on as the prefix, a slash and \<open>k\<close>.
\<close>

fun full_key :: "store \<Rightarrow> string \<Rightarrow> string" where
  "full_key (TCPStore h p) k = k"
| "full_key (PrefixStore pre s) k = full_key s (pre @ ''/'' @ k)"

text \<open>
  Modelled from the spec: \<^verbatim>\<open>Store.set\<close> is code of the repository that is not among the
  sources. Sections 4.1 and 6: a single-key set, which fails with a connection error when
  the store is unreachable.
\<close>

definition store_set :: "store \<Rightarrow> string \<Rightarrow> string \<Rightarrow> world \<Rightarrow> unit result \<times> world" where
  "store_set st k v w =
     (case net w (store_loc st) of
        None \<Rightarrow> (Raise DistStoreError, w)
      | Some kv \<Rightarrow>
          (Return (),
           w\<lparr>net := (net w)(store_loc st \<mapsto> kv(full_key st k \<mapsto> v)),
             trace := trace w @ [StoreSet (store_loc st) (full_key st k) v]\<rparr>))"

text \<open>
  Modelled from the spec: \<^verbatim>\<open>Store.multi_get\<close> is code of the repository that is not among
  the sources. Section 4.1: a blocking read that waits until every requested key exists
  and returns the values in the order of the keys, and fails with a connection error when
  the store is unreachable. The world holds the contents of the store at the time of the
  read, with no other writer: a missing key blocks for ever.
\<close>

definition multi_get :: "store \<Rightarrow> string list \<Rightarrow> world \<Rightarrow> string list result \<times> world" where
  "multi_get st ks w =
     (case net w (store_loc st) of
        None \<Rightarrow> (Raise DistStoreError, w)
      | Some kv \<Rightarrow>
          ((case those (map (\<lambda>k. kv (full_key st k)) ks) of
              None \<Rightarrow> Blocked
            | Some vs \<Rightarrow> Return vs),
           w\<lparr>trace := trace w @ [StoreGet (store_loc st) (map (full_key st) ks)]\<rparr>))"

text \<open>\<^verbatim>\<open>_tcpstore_client\<close> (lines 43 to 50): connect as a client, then scope by the prefix.\<close>

definition tcpstore_client :: "config \<Rightarrow> world \<Rightarrow> store result" where
  "tcpstore_client cfg w =
     (case net w (MASTER_ADDR cfg, MASTER_PORT cfg) of
        None \<Rightarrow> Raise DistStoreError
      | Some kv \<Rightarrow> Return (PrefixStore ''debug_server'' (TCPStore (MASTER_ADDR cfg) (MASTER_PORT cfg))))"

definition rank_key :: "int \<Rightarrow> string" where
  "rank_key r = ''rank'' @ str_int r"

section \<open>The worker side: \<^verbatim>\<open>enable_debug_server\<close>\<close>

text \<open>
  Lines 227 to 239. \<open>hostname\<close> is what \<^verbatim>\<open>socket.gethostname()\<close> returns. The class
  \<^verbatim>\<open>_WorkerServer\<close> is native code of the repository that is not among the sources; its
  constructor is taken as the parameter \<open>bound\<close>, the outcome of \<^verbatim>\<open>_WorkerServer("::", 0)\<close>:
  the port that the bind to port 0 was assigned, or the exception of a failed bind. The
  store handle is obtained first, then the server is constructed, then the address is
  set in the store, and rank 0 starts the subprocess of the interactive server.
\<close>

definition enable_debug_server ::
  "config \<Rightarrow> string \<Rightarrow> py_error + nat \<Rightarrow> world \<Rightarrow> unit result \<times> world" where
  "enable_debug_server cfg hostname bound w =
     (case tcpstore_client cfg w of
        Raise e \<Rightarrow> (Raise e, w)
      | Blocked \<Rightarrow> (Blocked, w)
      | Return store \<Rightarrow>
          (case bound of
             Inl e \<Rightarrow> (Raise e, w)
           | Inr port \<Rightarrow>
               (let w1 = w\<lparr>worker_server := Some port,
                           trace := trace w @ [WorkerServerStart port]\<rparr>
                in case store_set store (rank_key (RANK cfg))
                          (''http://'' @ hostname @ '':'' @ str_nat port) w1 of
                     (Return u, w2) \<Rightarrow>
                       if RANK cfg = 0
                       then (Return (), w2\<lparr>interactive := True, trace := trace w2 @ [ProcessStart]\<rparr>)
                       else (Return (), w2)
                   | (Raise e, w2) \<Rightarrow> (Raise e, w2)
                   | (Blocked, w2) \<Rightarrow> (Blocked, w2))))"

text \<open>A worker process: import the module, then call \<^verbatim>\<open>enable_debug_server()\<close>.\<close>

definition import_and_enable ::
  "(string \<Rightarrow> int option) \<Rightarrow> (string \<rightharpoonup> string) \<Rightarrow> string \<Rightarrow> py_error + nat \<Rightarrow> world
     \<Rightarrow> unit result \<times> world" where
  "import_and_enable py_int env hostname bound w =
     (case module_init py_int env w of
        (Return cfg, w1) \<Rightarrow> enable_debug_server cfg hostname bound w1
      | (Raise e, w1) \<Rightarrow> (Raise e, w1)
      | (Blocked, w1) \<Rightarrow> (Blocked, w1))"

section \<open>The coordinator side: \<^verbatim>\<open>fetch_all\<close>\<close>

datatype response = Response (status_code: int) (resp_text: string)

type_synonym outcome = "py_error + response"

text \<open>
  Line 57: the list comprehension decodes each resolved address and appends the handler
  path and the endpoint; the first address that does not decode raises.
\<close>

fun target_addrs :: "string \<Rightarrow> string list \<Rightarrow> string list result" where
  "target_addrs endpoint [] = Return []"
| "target_addrs endpoint (addr # addrs) =
     bind_r (decode addr) (\<lambda>a.
     bind_r (target_addrs endpoint addrs) (\<lambda>rest.
       Return ((a @ ''/handler/'' @ endpoint) # rest)))"

text \<open>
  Lines 59 to 60. \<^verbatim>\<open>executor.map\<close> creates one future per address, in the order of the
  list; a request that finishes stores its outcome (the response, or the exception it
  raised) in the future of its own index. \<open>post\<close> is \<^verbatim>\<open>requests.post\<close>; \<open>order\<close> lists the
  indices of the requests in the order they finish (a request that is not listed never
  finishes). Leaving the \<^verbatim>\<open>with\<close> block waits for every future. The size of the pool
  (\<^verbatim>\<open>max_workers=10\<close>) limits how many requests the library runs at a time; it has no
  part in which outcome is stored in which future.
\<close>

definition complete ::
  "(string \<Rightarrow> outcome) \<Rightarrow> string list \<Rightarrow> outcome option list \<Rightarrow> nat \<Rightarrow> outcome option list" where
  "complete post addrs fs i =
     (if i < length fs \<and> fs ! i = None then fs[i := Some (post (addrs ! i))] else fs)"

definition executor_map ::
  "(string \<Rightarrow> outcome) \<Rightarrow> string list \<Rightarrow> nat list \<Rightarrow> outcome option list" where
  "executor_map post addrs order =
     foldl (complete post addrs) (replicate (length addrs) None) order"

definition shutdown_wait :: "outcome option list \<Rightarrow> outcome list result" where
  "shutdown_wait fs = (case those fs of None \<Rightarrow> Blocked | Some rs \<Rightarrow> Return rs)"

definition fetch_all ::
  "config \<Rightarrow> (string \<Rightarrow> outcome) \<Rightarrow> nat list \<Rightarrow> string \<Rightarrow> world
     \<Rightarrow> (string list \<times> outcome list) result \<times> world" where
  "fetch_all cfg post order endpoint w =
     (case tcpstore_client cfg w of
        Raise e \<Rightarrow> (Raise e, w)
      | Blocked \<Rightarrow> (Blocked, w)
      | Return store \<Rightarrow>
          (let keys = map rank_key (range_py (WORLD_SIZE cfg)) in
           case multi_get store keys w of
             (r, w') \<Rightarrow>
               (bind_r r (\<lambda>raw.
                bind_r (target_addrs endpoint raw) (\<lambda>addrs.
                bind_r (shutdown_wait (executor_map post addrs order)) (\<lambda>resps.
                  Return (addrs, resps)))),
                w')))"

text \<open>
  The second component is the result iterator of \<^verbatim>\<open>executor.map\<close>: read by a caller, it
  yields the results of the futures in the order of the list and re-raises the exception
  of the first future that holds one; nothing is yielded after that.
\<close>

fun result_iterator :: "outcome list \<Rightarrow> response list \<times> py_error option" where
  "result_iterator [] = ([], None)"
| "result_iterator (Inl e # fs) = ([], Some e)"
| "result_iterator (Inr r # fs) = (case result_iterator fs of (rs, e) \<Rightarrow> (r # rs, e))"

text \<open>
  The loop of every route (lines 105, 130, 150, 204):
  \<^verbatim>\<open>for i, addr, resp in zip(range(len(addrs)), addrs, resps)\<close>.
\<close>

definition zip_ranks ::
  "string list \<Rightarrow> outcome list \<Rightarrow> (nat \<times> string \<times> response) list \<times> py_error option" where
  "zip_ranks addrs resps =
     (case result_iterator resps of
        (rs, e) \<Rightarrow> (zip [0..<length addrs] (zip addrs rs), e))"

section \<open>A concrete job\<close>

text \<open>
  Four workers, ranks 0 to 3, have published their addresses under the store of the
  master. The endpoint of rank 2 has been killed (its request is refused) and rank 1
  answers with status 404; the others answer with status 200.
\<close>

definition job_cfg :: config where
  "job_cfg = \<lparr>MASTER_ADDR = ''master'', MASTER_PORT = 29500, RANK = 0, WORLD_SIZE = 4\<rparr>"

definition job_addr :: "nat \<Rightarrow> string" where
  "job_addr i = ''http://node'' @ str_nat i @ '':4000''"

definition job_store :: "string \<rightharpoonup> string" where
  "job_store = map_of
     [(''debug_server/rank0'', ''http://node0:4000''),
      (''debug_server/rank1'', ''http://node1:4000''),
      (''debug_server/rank2'', ''http://node2:4000''),
      (''debug_server/rank3'', ''http://node3:4000'')]"

definition job_world :: world where
  "job_world = \<lparr>handlers = Map.empty, net = [(''master'', 29500) \<mapsto> job_store],
     worker_server = None, interactive = False, trace = []\<rparr>"

definition job_post :: "string \<Rightarrow> outcome" where
  "job_post url =
     (if url = ''http://node2:4000/handler/ping'' then Inl (RequestException ''connection refused'')
      else if url = ''http://node1:4000/handler/ping'' then Inr (Response 404 ''no such handler'')
      else Inr (Response 200 ''pong''))"

text \<open>The environment of the worker of rank 2 in this job.\<close>

definition job_env :: "string \<rightharpoonup> string" where
  "job_env = map_of
     [(''MASTER_ADDR'', ''master''), (''MASTER_PORT'', ''29500''),
      (''RANK'', ''2''), (''WORLD_SIZE'', ''4'')]"

section \<open>Properties\<close>

subsection \<open>Results, digits and keys\<close>

lemma bind_r_Return_iff:
  "bind_r m f = Return y \<longleftrightarrow> (\<exists>x. m = Return x \<and> f x = Return y)"
  by (cases m) auto

lemma str_nat_digit: "n < 10 \<Longrightarrow> str_nat n = [digit_char n]"
  by (subst str_nat.simps) simp

lemma those_eq_Some: "those xs = Some ys \<longleftrightarrow> xs = map Some ys"
  by (induction xs arbitrary: ys) (auto split: option.splits)

lemma length_complete: "length (complete post addrs fs i) = length fs"
  by (simp add: complete_def)

lemma length_foldl_complete:
  "length (foldl (complete post addrs) fs order) = length fs"
  by (induction order arbitrary: fs) (simp_all add: length_complete)

lemma nth_complete:
  "j < length fs \<Longrightarrow>
   complete post addrs fs i ! j =
     (if j = i \<and> fs ! j = None then Some (post (addrs ! j)) else fs ! j)"
  by (auto simp: complete_def nth_list_update)

lemma nth_foldl_complete:
  "j < length fs \<Longrightarrow>
   foldl (complete post addrs) fs order ! j =
     (if fs ! j = None \<and> j \<in> set order then Some (post (addrs ! j)) else fs ! j)"
proof (induction order arbitrary: fs)
  case Nil
  then show ?case by simp
next
  case (Cons i order)
  have len: "j < length (complete post addrs fs i)"
    using Cons.prems by (simp add: length_complete)
  show ?case
    using Cons.IH [OF len] Cons.prems
    by (auto simp: nth_complete)
qed

lemma nth_executor_map:
  "j < length addrs \<Longrightarrow>
   executor_map post addrs order ! j =
     (if j \<in> set order then Some (post (addrs ! j)) else None)"
  by (simp add: executor_map_def nth_foldl_complete)

lemma length_executor_map: "length (executor_map post addrs order) = length addrs"
  by (simp add: executor_map_def length_foldl_complete)

lemma shutdown_wait_Return_iff: "shutdown_wait fs = Return rs \<longleftrightarrow> fs = map Some rs"
  by (cases "those fs") (auto simp: shutdown_wait_def those_eq_Some [symmetric])

lemma executor_map_all_done:
  "executor_map post addrs order = map Some rs \<longleftrightarrow>
     {..<length addrs} \<subseteq> set order \<and> rs = map post addrs"
  by (auto simp: list_eq_iff_nth_eq length_executor_map nth_executor_map split: if_splits)

lemma shutdown_wait_Return:
  "shutdown_wait (executor_map post addrs order) = Return rs \<longleftrightarrow>
     {..<length addrs} \<subseteq> set order \<and> rs = map post addrs"
  by (simp only: shutdown_wait_Return_iff executor_map_all_done)

lemma target_addrs_Return:
  "target_addrs endpoint raw = Return addrs \<longleftrightarrow>
     list_all utf8_valid raw \<and> addrs = map (\<lambda>a. a @ ''/handler/'' @ endpoint) raw"
  by (induction raw arbitrary: addrs) (auto simp: decode_def bind_r_Return_iff)

lemma result_iterator_append:
  "result_iterator (map Inr rs @ fs) =
     (case result_iterator fs of (rs', e) \<Rightarrow> (rs @ rs', e))"
  by (induction rs) (auto split: prod.splits)

lemma digit_char_inj: "a < 10 \<Longrightarrow> b < 10 \<Longrightarrow> digit_char a = digit_char b \<Longrightarrow> a = b"
proof -
  assume a: "a < 10" and b: "b < 10" and eq: "digit_char a = digit_char b"
  have "distinct ''0123456789''" by simp
  with a b eq show ?thesis
    unfolding digit_char_def by (subst (asm) nth_eq_iff_index_eq) simp_all
qed

lemma str_nat_nonempty: "str_nat n \<noteq> []"
  by (subst str_nat.simps) simp

lemma str_nat_inj: "str_nat n = str_nat m \<Longrightarrow> n = m"
proof (induction n arbitrary: m rule: str_nat.induct)
  case (1 n)
  show ?case
  proof (cases "n < 10")
    case True
    then have n: "str_nat n = [digit_char n]" by (subst str_nat.simps) simp
    show ?thesis
    proof (cases "m < 10")
      case True
      then have "str_nat m = [digit_char m]" by (subst str_nat.simps) simp
      with n "1.prems" \<open>n < 10\<close> True show ?thesis by (auto dest: digit_char_inj)
    next
      case False
      then have "str_nat m = str_nat (m div 10) @ [digit_char (m mod 10)]"
        by (subst str_nat.simps) simp
      with n "1.prems" show ?thesis by (simp add: str_nat_nonempty)
    qed
  next
    case False
    then have n: "str_nat n = str_nat (n div 10) @ [digit_char (n mod 10)]"
      by (subst str_nat.simps) simp
    show ?thesis
    proof (cases "m < 10")
      case True
      then have "str_nat m = [digit_char m]" by (subst str_nat.simps) simp
      with n "1.prems" show ?thesis using str_nat_nonempty [of "n div 10"] by auto
    next
      case m: False
      then have "str_nat m = str_nat (m div 10) @ [digit_char (m mod 10)]"
        by (subst str_nat.simps) simp
      with n "1.prems" have a: "str_nat (n div 10) = str_nat (m div 10)"
        and b: "digit_char (n mod 10) = digit_char (m mod 10)" by simp_all
      from "1.IH" [OF False a] have "n div 10 = m div 10" .
      moreover have "n mod 10 = m mod 10" by (rule digit_char_inj [OF _ _ b]) simp_all
      ultimately show ?thesis by (metis div_mult_mod_eq)
    qed
  qed
qed

lemma str_nat_no_minus: "CHR ''-'' \<notin> set (str_nat n)"
proof (induction n rule: str_nat.induct)
  case (1 n)
  have d: "digit_char k \<noteq> CHR ''-''" if "k < 10" for k
  proof -
    from that have "digit_char k \<in> set ''0123456789''"
      unfolding digit_char_def by (intro nth_mem) simp
    then show ?thesis by auto
  qed
  show ?case
    using 1 d [of n] d [of "n mod 10"] by (subst str_nat.simps) auto
qed

lemma str_int_inj: "str_int i = str_int j \<Longrightarrow> i = j"
proof -
  assume eq: "str_int i = str_int j"
  have neg: False if "a < 0" "\<not> b < 0" "str_int a = str_int b" for a b
  proof -
    from that have "CHR ''-'' \<in> set (str_nat (nat b))"
      by (simp add: str_int_def) (metis list.set_intros(1))
    then show False by (simp add: str_nat_no_minus)
  qed
  show ?thesis
  proof (cases "i < 0")
    case True
    show ?thesis
    proof (cases "j < 0")
      case j: True
      with True eq have "nat (- i) = nat (- j)" by (auto simp: str_int_def dest: str_nat_inj)
      with True j show ?thesis by simp
    next
      case False
      with True eq neg show ?thesis by blast
    qed
  next
    case False
    show ?thesis
    proof (cases "j < 0")
      case True
      with False eq neg [of j i] show ?thesis by simp
    next
      case j: False
      with False eq have "nat i = nat j" by (auto simp: str_int_def dest: str_nat_inj)
      with False j show ?thesis by simp
    qed
  qed
qed

lemma rank_key_inj: "rank_key i = rank_key j \<longleftrightarrow> i = j"
  by (auto simp: rank_key_def dest: str_int_inj)

lemma tcpstore_client_Return:
  "tcpstore_client cfg w = Return st \<longleftrightarrow>
     net w (MASTER_ADDR cfg, MASTER_PORT cfg) \<noteq> None \<and>
     st = PrefixStore ''debug_server'' (TCPStore (MASTER_ADDR cfg) (MASTER_PORT cfg))"
  by (auto simp: tcpstore_client_def split: option.splits)

lemma those_map_Some: "those (map Some vs) = Some vs"
  by (simp add: those_eq_Some)

lemma fst_multi_get_Return:
  "fst (multi_get st ks w) = Return vs \<longleftrightarrow>
     (\<exists>kv. net w (store_loc st) = Some kv \<and> map (\<lambda>k. kv (full_key st k)) ks = map Some vs)"
  by (auto simp: multi_get_def those_eq_Some those_map_Some split: option.splits)

lemma fetch_all_Return_iff:
  "fst (fetch_all cfg post order endpoint w) = Return (addrs, resps) \<longleftrightarrow>
     (\<exists>kv raw.
        net w (MASTER_ADDR cfg, MASTER_PORT cfg) = Some kv \<and>
        map (\<lambda>r. kv (''debug_server/'' @ rank_key r)) (range_py (WORLD_SIZE cfg)) = map Some raw \<and>
        list_all utf8_valid raw \<and>
        addrs = map (\<lambda>a. a @ ''/handler/'' @ endpoint) raw \<and>
        {..<length raw} \<subseteq> set order \<and>
        resps = map post addrs)"
proof (cases "net w (MASTER_ADDR cfg, MASTER_PORT cfg)")
  case None
  then show ?thesis by (simp add: fetch_all_def tcpstore_client_def)
next
  case (Some kv)
  let ?st = "PrefixStore ''debug_server'' (TCPStore (MASTER_ADDR cfg) (MASTER_PORT cfg))"
  let ?keys = "map rank_key (range_py (WORLD_SIZE cfg))"
  have fa: "fst (fetch_all cfg post order endpoint w) =
      bind_r (fst (multi_get ?st ?keys w)) (\<lambda>raw.
      bind_r (target_addrs endpoint raw) (\<lambda>addrs.
      bind_r (shutdown_wait (executor_map post addrs order)) (\<lambda>resps.
        Return (addrs, resps))))"
    using Some by (simp add: fetch_all_def tcpstore_client_def Let_def split: prod.splits)
  show ?thesis
    unfolding fa bind_r_Return_iff fst_multi_get_Return target_addrs_Return shutdown_wait_Return
    using Some by (auto simp: comp_def)
qed

lemma result_iterator_all_ok: "result_iterator (map Inr rs) = (rs, None)"
  by (induction rs) simp_all

lemma result_iterator_first_failure:
  "result_iterator (map Inr rs @ Inl e # rest) = (rs, Some e)"
  by (simp add: result_iterator_append)

lemma job_fetch_all:
  assumes "{..<4} \<subseteq> set order"
  shows "fst (fetch_all job_cfg job_post order ''ping'' job_world) =
     Return ([''http://node0:4000/handler/ping'', ''http://node1:4000/handler/ping'',
              ''http://node2:4000/handler/ping'', ''http://node3:4000/handler/ping''],
             [Inr (Response 200 ''pong''), Inr (Response 404 ''no such handler''),
              Inl (RequestException ''connection refused''), Inr (Response 200 ''pong'')])"
proof -
  let ?raw = "[''http://node0:4000'', ''http://node1:4000'', ''http://node2:4000'', ''http://node3:4000'']"
  have upt4: "[0..<4] = [0, 1, 2, 3::nat]" by (simp add: upt_rec)
  have store: "net job_world (MASTER_ADDR job_cfg, MASTER_PORT job_cfg) = Some job_store"
    by (simp add: job_world_def job_cfg_def)
  have keys: "map (\<lambda>r. job_store (''debug_server/'' @ rank_key r)) (range_py (WORLD_SIZE job_cfg)) = map Some ?raw"
    by (simp add: job_cfg_def range_py_def upt4 job_store_def rank_key_def str_int_def str_nat_digit digit_char_def)
  have valid: "list_all utf8_valid ?raw"
    by (simp add: byte_in_def)
  have "length ?raw = 4" by simp
  then have fin: "{..<length ?raw} \<subseteq> set order"
    using assms by (simp only:)
  have "fst (fetch_all job_cfg job_post order ''ping'' job_world) =
      Return (map (\<lambda>a. a @ ''/handler/'' @ ''ping'') ?raw,
              map job_post (map (\<lambda>a. a @ ''/handler/'' @ ''ping'') ?raw))"
    unfolding fetch_all_Return_iff using store keys valid fin by blast
  then show ?thesis by (simp add: job_post_def)
qed

lemma zip_ranks_all_ok:
  "resps = map Inr rs \<Longrightarrow>
   zip_ranks addrs resps = (zip [0..<length addrs] (zip addrs rs), None)"
  by (simp add: zip_ranks_def result_iterator_all_ok)

lemma zip_ranks_first_failure:
  "resps = map Inr rs @ Inl e # rest \<Longrightarrow>
   zip_ranks addrs resps = (zip [0..<length addrs] (zip addrs rs), Some e)"
  by (simp add: zip_ranks_def result_iterator_first_failure)

lemma shutdown_wait_executor_map:
  "shutdown_wait (executor_map post addrs order) =
     (if {..<length addrs} \<subseteq> set order then Return (map post addrs) else Blocked)"
proof (cases "{..<length addrs} \<subseteq> set order")
  case True
  then show ?thesis by (simp add: shutdown_wait_Return)
next
  case False
  then have "\<forall>rs. shutdown_wait (executor_map post addrs order) \<noteq> Return rs"
    by (simp add: shutdown_wait_Return)
  then have "shutdown_wait (executor_map post addrs order) = Blocked"
    by (simp add: shutdown_wait_def split: option.splits)
  with False show ?thesis by simp
qed

lemma fetch_all_resolved:
  assumes store: "net w (MASTER_ADDR cfg, MASTER_PORT cfg) = Some kv"
    and published: "\<forall>i < nat (WORLD_SIZE cfg).
           kv (''debug_server/'' @ rank_key (int i)) = Some (addr i) \<and> utf8_valid (addr i)"
  shows "fst (multi_get (PrefixStore ''debug_server'' (TCPStore (MASTER_ADDR cfg) (MASTER_PORT cfg)))
            (map rank_key (range_py (WORLD_SIZE cfg))) w) =
           Return (map addr [0..<nat (WORLD_SIZE cfg)])"
    and "target_addrs endpoint (map addr [0..<nat (WORLD_SIZE cfg)]) =
           Return (map (\<lambda>i. addr i @ ''/handler/'' @ endpoint) [0..<nat (WORLD_SIZE cfg)])"
    and "fst (fetch_all cfg post order endpoint w) =
           (if \<forall>i < nat (WORLD_SIZE cfg). i \<in> set order
            then Return (map (\<lambda>i. addr i @ ''/handler/'' @ endpoint) [0..<nat (WORLD_SIZE cfg)],
                         map (\<lambda>i. post (addr i @ ''/handler/'' @ endpoint)) [0..<nat (WORLD_SIZE cfg)])
            else Blocked)"
proof -
  let ?n = "nat (WORLD_SIZE cfg)"
  let ?st = "PrefixStore ''debug_server'' (TCPStore (MASTER_ADDR cfg) (MASTER_PORT cfg))"
  let ?keys = "map rank_key (range_py (WORLD_SIZE cfg))"
  let ?raw = "map addr [0..<?n]"
  let ?urls = "map (\<lambda>i. addr i @ ''/handler/'' @ endpoint) [0..<?n]"
  have keys: "map (\<lambda>k. kv (full_key ?st k)) ?keys = map Some ?raw"
    using published by (simp add: range_py_def comp_def)
  show get: "fst (multi_get ?st ?keys w) = Return ?raw"
    unfolding fst_multi_get_Return using store keys by simp
  have valid: "list_all utf8_valid ?raw"
    using published by (simp add: list_all_iff)
  have "target_addrs endpoint ?raw = Return (map (\<lambda>a. a @ ''/handler/'' @ endpoint) ?raw)"
    unfolding target_addrs_Return using valid by simp
  then show urls: "target_addrs endpoint ?raw = Return ?urls"
    by (simp add: comp_def)
  have subset: "{..<length ?urls} \<subseteq> set order \<longleftrightarrow> (\<forall>i < ?n. i \<in> set order)"
    by auto
  have "fst (fetch_all cfg post order endpoint w) =
      bind_r (fst (multi_get ?st ?keys w)) (\<lambda>raw.
      bind_r (target_addrs endpoint raw) (\<lambda>addrs.
      bind_r (shutdown_wait (executor_map post addrs order)) (\<lambda>resps.
        Return (addrs, resps))))"
    using store by (simp add: fetch_all_def tcpstore_client_def Let_def split: prod.splits)
  also have "\<dots> = bind_r (shutdown_wait (executor_map post ?urls order)) (\<lambda>resps. Return (?urls, resps))"
    by (simp only: get urls bind_r.simps)
  also have "\<dots> = (if \<forall>i < ?n. i \<in> set order then Return (?urls, map post ?urls) else Blocked)"
    unfolding shutdown_wait_executor_map subset by simp
  finally show "fst (fetch_all cfg post order endpoint w) =
           (if \<forall>i < ?n. i \<in> set order
            then Return (?urls, map (\<lambda>i. post (addr i @ ''/handler/'' @ endpoint)) [0..<?n])
            else Blocked)"
    by (simp add: comp_def)
qed

lemma result_iterator_upto:
  assumes "k \<le> length fs" and "\<forall>i < k. \<not> isl (fs ! i)" and "k < length fs \<longrightarrow> isl (fs ! k)"
  shows "result_iterator fs =
     (map (\<lambda>i. projr (fs ! i)) [0..<k], if k < length fs then Some (projl (fs ! k)) else None)"
proof -
  let ?rs = "map (\<lambda>i. projr (fs ! i)) [0..<k]"
  have take: "take k fs = map Inr ?rs"
    using assms(1,2) by (auto simp: list_eq_iff_nth_eq)
  have split: "fs = map Inr ?rs @ drop k fs"
    using take by (metis append_take_drop_id)
  show ?thesis
  proof (cases "k < length fs")
    case True
    with assms(3) have "fs ! k = Inl (projl (fs ! k))" by simp
    with True have "drop k fs = Inl (projl (fs ! k)) # drop (Suc k) fs"
      by (metis Cons_nth_drop_Suc)
    with split have "fs = map Inr ?rs @ Inl (projl (fs ! k)) # drop (Suc k) fs" by simp
    then have "result_iterator fs = (?rs, Some (projl (fs ! k)))"
      by (metis result_iterator_first_failure)
    with True show ?thesis by simp
  next
    case False
    with assms(1) split have "fs = map Inr ?rs" by simp
    then have "result_iterator fs = (?rs, None)"
      by (metis result_iterator_all_ok)
    with False show ?thesis by simp
  qed
qed

lemma zip_ranks_upto:
  assumes "length addrs = length fs" and "k \<le> length fs"
    and "\<forall>i < k. \<not> isl (fs ! i)" and "k < length fs \<longrightarrow> isl (fs ! k)"
  shows "zip_ranks addrs fs =
     (map (\<lambda>i. (i, addrs ! i, projr (fs ! i))) [0..<k],
      if k < length fs then Some (projl (fs ! k)) else None)"
proof -
  have "zip [0..<length addrs] (zip addrs (map (\<lambda>i. projr (fs ! i)) [0..<k])) =
      map (\<lambda>i. (i, addrs ! i, projr (fs ! i))) [0..<k]"
  proof (rule nth_equalityI)
    show "length (zip [0..<length addrs] (zip addrs (map (\<lambda>i. projr (fs ! i)) [0..<k]))) =
        length (map (\<lambda>i. (i, addrs ! i, projr (fs ! i))) [0..<k])"
      using assms(1,2) by simp
  next
    fix i
    assume "i < length (zip [0..<length addrs] (zip addrs (map (\<lambda>i. projr (fs ! i)) [0..<k])))"
    then have "i < k" and "i < length addrs" by simp_all
    then show "zip [0..<length addrs] (zip addrs (map (\<lambda>i. projr (fs ! i)) [0..<k])) ! i =
        map (\<lambda>i. (i, addrs ! i, projr (fs ! i))) [0..<k] ! i"
      by simp
  qed
  then show ?thesis
    by (simp add: zip_ranks_def result_iterator_upto [OF assms(2,3,4)])
qed

lemma job_resolved:
  shows "net job_world (MASTER_ADDR job_cfg, MASTER_PORT job_cfg) = Some job_store"
    and "\<forall>i < nat (WORLD_SIZE job_cfg).
      job_store (''debug_server/'' @ rank_key (int i)) = Some (job_addr i) \<and> utf8_valid (job_addr i)"
    and "nat (WORLD_SIZE job_cfg) = 4"
    and "map job_addr [0..<4] =
      [''http://node0:4000'', ''http://node1:4000'', ''http://node2:4000'', ''http://node3:4000'']"
    and "map (\<lambda>i. job_addr i @ ''/handler/'' @ ''ping'') [0..<4] =
     [''http://node0:4000/handler/ping'', ''http://node1:4000/handler/ping'',
      ''http://node2:4000/handler/ping'', ''http://node3:4000/handler/ping'']"
    and "map (\<lambda>i. job_post (job_addr i @ ''/handler/'' @ ''ping'')) [0..<4] =
     [Inr (Response 200 ''pong''), Inr (Response 404 ''no such handler''),
      Inl (RequestException ''connection refused''), Inr (Response 200 ''pong'')]"
proof -
  have n: "nat (WORLD_SIZE job_cfg) = 4" by (simp add: job_cfg_def)
  have lt4: "i < 4 \<longleftrightarrow> i = 0 \<or> i = 1 \<or> i = 2 \<or> i = 3" for i :: nat by auto
  have upt4: "[0..<4] = [0, 1, 2, 3::nat]" by (simp add: upt_rec)
  show "net job_world (MASTER_ADDR job_cfg, MASTER_PORT job_cfg) = Some job_store"
    by (simp add: job_world_def job_cfg_def)
  show "\<forall>i < nat (WORLD_SIZE job_cfg).
      job_store (''debug_server/'' @ rank_key (int i)) = Some (job_addr i) \<and> utf8_valid (job_addr i)"
    unfolding n lt4
    by (simp add: job_store_def job_addr_def rank_key_def str_int_def str_nat_digit digit_char_def byte_in_def)
  show "nat (WORLD_SIZE job_cfg) = 4" by (rule n)
  show "map job_addr [0..<4] =
      [''http://node0:4000'', ''http://node1:4000'', ''http://node2:4000'', ''http://node3:4000'']"
    by (simp add: upt4 job_addr_def str_nat_digit digit_char_def)
  show "map (\<lambda>i. job_addr i @ ''/handler/'' @ ''ping'') [0..<4] =
     [''http://node0:4000/handler/ping'', ''http://node1:4000/handler/ping'',
      ''http://node2:4000/handler/ping'', ''http://node3:4000/handler/ping'']"
    by (simp add: upt4 job_addr_def str_nat_digit digit_char_def)
  show "map (\<lambda>i. job_post (job_addr i @ ''/handler/'' @ ''ping'')) [0..<4] =
     [Inr (Response 200 ''pong''), Inr (Response 404 ''no such handler''),
      Inl (RequestException ''connection refused''), Inr (Response 200 ''pong'')]"
    by (simp add: upt4 job_addr_def job_post_def str_nat_digit digit_char_def)
qed

subsection \<open>The fan-out returns one outcome per rank, in rank order\<close>

text \<open>
  C1, as stated, fails. The job above has four ranks, the store has resolved all of them
  and all four requests have finished (rank 3 first, rank 2 last), yet the result of
  \<open>fetch_all\<close> does not give its caller four entries: the request to rank 2 was refused,
  so the loop of a route receives the two entries of ranks 0 and 1 and then the exception;
  ranks 2 and 3 have no entry.
\<close>

theorem fetch_all_rank_order_counterexample:
  "nat (WORLD_SIZE job_cfg) = 4 \<and>
   fst (fetch_all job_cfg job_post [3, 1, 0, 2] ''ping'' job_world) =
     Return ([''http://node0:4000/handler/ping'', ''http://node1:4000/handler/ping'',
      ''http://node2:4000/handler/ping'', ''http://node3:4000/handler/ping''],
     [Inr (Response 200 ''pong''), Inr (Response 404 ''no such handler''),
      Inl (RequestException ''connection refused''), Inr (Response 200 ''pong'')]) \<and>
   length (fst (zip_ranks
     [''http://node0:4000/handler/ping'', ''http://node1:4000/handler/ping'',
      ''http://node2:4000/handler/ping'', ''http://node3:4000/handler/ping'']
     [Inr (Response 200 ''pong''), Inr (Response 404 ''no such handler''),
      Inl (RequestException ''connection refused''), Inr (Response 200 ''pong'')])) = 2 \<and>
   snd (zip_ranks
     [''http://node0:4000/handler/ping'', ''http://node1:4000/handler/ping'',
      ''http://node2:4000/handler/ping'', ''http://node3:4000/handler/ping'']
     [Inr (Response 200 ''pong''), Inr (Response 404 ''no such handler''),
      Inl (RequestException ''connection refused''), Inr (Response 200 ''pong'')]) = Some (RequestException ''connection refused'')"
proof -
  have "{..<4} \<subseteq> set [3, 1, 0, 2::nat]" by auto
  then have "fst (fetch_all job_cfg job_post [3, 1, 0, 2] ''ping'' job_world) =
     Return ([''http://node0:4000/handler/ping'', ''http://node1:4000/handler/ping'',
      ''http://node2:4000/handler/ping'', ''http://node3:4000/handler/ping''],
     [Inr (Response 200 ''pong''), Inr (Response 404 ''no such handler''),
      Inl (RequestException ''connection refused''), Inr (Response 200 ''pong'')])"
    by (rule job_fetch_all)
  moreover have "nat (WORLD_SIZE job_cfg) = 4" by (simp add: job_cfg_def)
  ultimately show ?thesis
    by (simp add: zip_ranks_def upt_rec)
qed

text \<open>
  C1, amended. For every world size \<open>N\<close> and every endpoint, when the store has resolved
  every rank and every request has finished, \<open>fetch_all\<close> returns exactly \<open>N\<close> target
  addresses and holds exactly \<open>N\<close> request outcomes, one per rank \<open>0..N-1\<close> in ascending
  rank order, whatever the order in which the requests finish (\<open>order\<close> does not occur in
  the result): the outcome at position \<open>i\<close> is always that of rank \<open>i\<close>. A caller that reads
  the result receives, at position \<open>i\<close>, the rank \<open>i\<close>, its address and its response, for
  every rank below the first rank \<open>k\<close> whose request raised, and then that exception; it
  receives exactly \<open>N\<close> entries, and no exception, when no request raised (\<open>k = N\<close>).
\<close>

theorem fetch_all_rank_order:
  assumes "net w (MASTER_ADDR cfg, MASTER_PORT cfg) = Some kv"
    and "\<forall>i < nat (WORLD_SIZE cfg).
           kv (''debug_server/'' @ rank_key (int i)) = Some (addr i) \<and> utf8_valid (addr i)"
    and "\<forall>i < nat (WORLD_SIZE cfg). i \<in> set order"
  shows "fst (fetch_all cfg post order endpoint w) =
           Return (map (\<lambda>i. addr i @ ''/handler/'' @ endpoint) [0..<nat (WORLD_SIZE cfg)],
                   map (\<lambda>i. post (addr i @ ''/handler/'' @ endpoint)) [0..<nat (WORLD_SIZE cfg)]) \<and>
     (\<forall>k. k \<le> nat (WORLD_SIZE cfg) \<and>
          (\<forall>i < k. \<not> isl (post (addr i @ ''/handler/'' @ endpoint))) \<and>
          (k < nat (WORLD_SIZE cfg) \<longrightarrow> isl (post (addr k @ ''/handler/'' @ endpoint))) \<longrightarrow>
        zip_ranks (map (\<lambda>i. addr i @ ''/handler/'' @ endpoint) [0..<nat (WORLD_SIZE cfg)])
                  (map (\<lambda>i. post (addr i @ ''/handler/'' @ endpoint)) [0..<nat (WORLD_SIZE cfg)]) =
          (map (\<lambda>i. (i, addr i @ ''/handler/'' @ endpoint,
                        projr (post (addr i @ ''/handler/'' @ endpoint)))) [0..<k],
           if k < nat (WORLD_SIZE cfg)
           then Some (projl (post (addr k @ ''/handler/'' @ endpoint))) else None))"
proof (intro conjI allI impI)
  show "fst (fetch_all cfg post order endpoint w) =
           Return (map (\<lambda>i. addr i @ ''/handler/'' @ endpoint) [0..<nat (WORLD_SIZE cfg)],
                   map (\<lambda>i. post (addr i @ ''/handler/'' @ endpoint)) [0..<nat (WORLD_SIZE cfg)])"
    using fetch_all_resolved(3) [OF assms(1,2), of post order endpoint] assms(3) by simp
next
  let ?n = "nat (WORLD_SIZE cfg)"
  let ?urls = "map (\<lambda>i. addr i @ ''/handler/'' @ endpoint) [0..<?n]"
  let ?fs = "map (\<lambda>i. post (addr i @ ''/handler/'' @ endpoint)) [0..<?n]"
  fix k
  assume k: "k \<le> ?n \<and>
          (\<forall>i < k. \<not> isl (post (addr i @ ''/handler/'' @ endpoint))) \<and>
          (k < ?n \<longrightarrow> isl (post (addr k @ ''/handler/'' @ endpoint)))"
  have len: "length ?urls = length ?fs" by simp
  have k1: "k \<le> length ?fs" using k by simp
  have k2: "\<forall>i < k. \<not> isl (?fs ! i)" using k by simp
  have k3: "k < length ?fs \<longrightarrow> isl (?fs ! k)" using k by simp
  have "zip_ranks ?urls ?fs =
     (map (\<lambda>i. (i, ?urls ! i, projr (?fs ! i))) [0..<k],
      if k < length ?fs then Some (projl (?fs ! k)) else None)"
    by (rule zip_ranks_upto [OF len k1 k2 k3])
  also have "map (\<lambda>i. (i, ?urls ! i, projr (?fs ! i))) [0..<k] =
      map (\<lambda>i. (i, addr i @ ''/handler/'' @ endpoint,
                    projr (post (addr i @ ''/handler/'' @ endpoint)))) [0..<k]"
    using k by simp
  also have "(if k < length ?fs then Some (projl (?fs ! k)) else None) =
      (if k < ?n then Some (projl (post (addr k @ ''/handler/'' @ endpoint))) else None)"
    by simp
  finally show "zip_ranks ?urls ?fs =
          (map (\<lambda>i. (i, addr i @ ''/handler/'' @ endpoint,
                        projr (post (addr i @ ''/handler/'' @ endpoint)))) [0..<k],
           if k < ?n then Some (projl (post (addr k @ ''/handler/'' @ endpoint))) else None)" .
qed

theorem fetch_all_rank_order_witness:
  "fst (fetch_all job_cfg job_post [2, 0, 3, 1] ''ping'' job_world) =
     Return ([''http://node0:4000/handler/ping'', ''http://node1:4000/handler/ping'',
      ''http://node2:4000/handler/ping'', ''http://node3:4000/handler/ping''],
     [Inr (Response 200 ''pong''), Inr (Response 404 ''no such handler''),
      Inl (RequestException ''connection refused''), Inr (Response 200 ''pong'')]) \<and>
   zip_ranks
     [''http://node0:4000/handler/ping'', ''http://node1:4000/handler/ping'',
      ''http://node2:4000/handler/ping'', ''http://node3:4000/handler/ping'']
     [Inr (Response 200 ''pong''), Inr (Response 404 ''no such handler''),
      Inl (RequestException ''connection refused''), Inr (Response 200 ''pong'')] =
     ([(0, ''http://node0:4000/handler/ping'', Response 200 ''pong''),
       (1, ''http://node1:4000/handler/ping'', Response 404 ''no such handler'')],
      Some (RequestException ''connection refused''))"
proof -
  have finished: "\<forall>i < nat (WORLD_SIZE job_cfg). i \<in> set [2, 0, 3, 1::nat]"
    unfolding job_resolved(3) by (simp add: less_Suc_eq numeral_eq_Suc)
  note t = fetch_all_rank_order [OF job_resolved(1,2) finished, of job_post "''ping''",
      unfolded job_resolved(3) job_resolved(5) job_resolved(6)]
  have first: "(2::nat) \<le> 4 \<and>
          (\<forall>i < 2. \<not> isl (job_post (job_addr i @ ''/handler/'' @ ''ping''))) \<and>
          ((2::nat) < 4 \<longrightarrow> isl (job_post (job_addr 2 @ ''/handler/'' @ ''ping'')))"
    by (simp add: less_Suc_eq numeral_eq_Suc job_addr_def job_post_def str_nat_digit digit_char_def)
  have upt2: "[0..<2] = [0, 1::nat]" by (simp add: upt_rec)
  from t have ret: "fst (fetch_all job_cfg job_post [2, 0, 3, 1] ''ping'' job_world) =
     Return ([''http://node0:4000/handler/ping'', ''http://node1:4000/handler/ping'',
      ''http://node2:4000/handler/ping'', ''http://node3:4000/handler/ping''],
     [Inr (Response 200 ''pong''), Inr (Response 404 ''no such handler''),
      Inl (RequestException ''connection refused''), Inr (Response 200 ''pong'')])"
    by (rule conjunct1)
  from t [THEN conjunct2, rule_format, OF first]
  have "zip_ranks
     [''http://node0:4000/handler/ping'', ''http://node1:4000/handler/ping'',
      ''http://node2:4000/handler/ping'', ''http://node3:4000/handler/ping'']
     [Inr (Response 200 ''pong''), Inr (Response 404 ''no such handler''),
      Inl (RequestException ''connection refused''), Inr (Response 200 ''pong'')] =
     ([(0, ''http://node0:4000/handler/ping'', Response 200 ''pong''),
       (1, ''http://node1:4000/handler/ping'', Response 404 ''no such handler'')],
      Some (RequestException ''connection refused''))"
    by (simp add: upt2 job_addr_def job_post_def str_nat_digit digit_char_def)
  with ret show ?thesis by (rule conjI)
qed

subsection \<open>One target address per rank\<close>

text \<open>
  C5. For every rank the fan-out builds exactly one target address: the address resolved
  for that rank, followed by \<^verbatim>\<open>/handler/\<close> and the endpoint (the handler name with its
  optional query suffix). When the store is reachable and every rank has published a
  decodable address: the store resolves the addresses in rank order; line 57 turns them
  into the list of target addresses, whose entry at position \<open>i\<close> is the address resolved
  at position \<open>i\<close> with the handler path and the endpoint appended; the request whose
  outcome is stored in the future at position \<open>i\<close> is the one to that address; and
  \<open>fetch_all\<close> returns this list as its first component as soon as every request has
  finished (it blocks as long as one has not).
\<close>

theorem target_address_per_rank:
  assumes "net w (MASTER_ADDR cfg, MASTER_PORT cfg) = Some kv"
    and "\<forall>i < nat (WORLD_SIZE cfg).
           kv (''debug_server/'' @ rank_key (int i)) = Some (addr i) \<and> utf8_valid (addr i)"
  shows "fst (multi_get (PrefixStore ''debug_server'' (TCPStore (MASTER_ADDR cfg) (MASTER_PORT cfg)))
            (map rank_key (range_py (WORLD_SIZE cfg))) w) =
           Return (map addr [0..<nat (WORLD_SIZE cfg)]) \<and>
     target_addrs endpoint (map addr [0..<nat (WORLD_SIZE cfg)]) =
           Return (map (\<lambda>i. addr i @ ''/handler/'' @ endpoint) [0..<nat (WORLD_SIZE cfg)]) \<and>
     (\<forall>i < nat (WORLD_SIZE cfg).
        executor_map post (map (\<lambda>i. addr i @ ''/handler/'' @ endpoint) [0..<nat (WORLD_SIZE cfg)])
            order ! i =
          (if i \<in> set order then Some (post (addr i @ ''/handler/'' @ endpoint)) else None)) \<and>
     fst (fetch_all cfg post order endpoint w) =
           (if \<forall>i < nat (WORLD_SIZE cfg). i \<in> set order
            then Return (map (\<lambda>i. addr i @ ''/handler/'' @ endpoint) [0..<nat (WORLD_SIZE cfg)],
                         map (\<lambda>i. post (addr i @ ''/handler/'' @ endpoint)) [0..<nat (WORLD_SIZE cfg)])
            else Blocked)"
proof (intro conjI)
  show "fst (multi_get (PrefixStore ''debug_server'' (TCPStore (MASTER_ADDR cfg) (MASTER_PORT cfg)))
            (map rank_key (range_py (WORLD_SIZE cfg))) w) =
           Return (map addr [0..<nat (WORLD_SIZE cfg)])"
    by (rule fetch_all_resolved(1) [OF assms])
next
  show "target_addrs endpoint (map addr [0..<nat (WORLD_SIZE cfg)]) =
           Return (map (\<lambda>i. addr i @ ''/handler/'' @ endpoint) [0..<nat (WORLD_SIZE cfg)])"
    by (rule fetch_all_resolved(2) [OF assms])
next
  show "\<forall>i < nat (WORLD_SIZE cfg).
        executor_map post (map (\<lambda>i. addr i @ ''/handler/'' @ endpoint) [0..<nat (WORLD_SIZE cfg)])
            order ! i =
          (if i \<in> set order then Some (post (addr i @ ''/handler/'' @ endpoint)) else None)"
    by (simp add: nth_executor_map)
next
  show "fst (fetch_all cfg post order endpoint w) =
           (if \<forall>i < nat (WORLD_SIZE cfg). i \<in> set order
            then Return (map (\<lambda>i. addr i @ ''/handler/'' @ endpoint) [0..<nat (WORLD_SIZE cfg)],
                         map (\<lambda>i. post (addr i @ ''/handler/'' @ endpoint)) [0..<nat (WORLD_SIZE cfg)])
            else Blocked)"
    by (rule fetch_all_resolved(3) [OF assms])
qed

theorem target_address_per_rank_witness:
  "target_addrs ''ping''
     [''http://node0:4000'', ''http://node1:4000'', ''http://node2:4000'', ''http://node3:4000''] =
     Return [''http://node0:4000/handler/ping'', ''http://node1:4000/handler/ping'',
      ''http://node2:4000/handler/ping'', ''http://node3:4000/handler/ping''] \<and>
   fst (fetch_all job_cfg job_post [1, 2, 3, 0] ''ping'' job_world) =
     Return ([''http://node0:4000/handler/ping'', ''http://node1:4000/handler/ping'',
      ''http://node2:4000/handler/ping'', ''http://node3:4000/handler/ping''],
     [Inr (Response 200 ''pong''), Inr (Response 404 ''no such handler''),
      Inl (RequestException ''connection refused''), Inr (Response 200 ''pong'')]) \<and>
   fst (fetch_all job_cfg job_post [0, 1] ''ping'' job_world) = Blocked"
proof -
  note t = target_address_per_rank [OF job_resolved(1,2), of "''ping''" job_post,
      unfolded job_resolved(3) job_resolved(4) job_resolved(5) job_resolved(6)]
  have all: "\<forall>i < 4. i \<in> set [1, 2, 3, 0::nat]"
    by (simp add: less_Suc_eq numeral_eq_Suc)
  have some: "\<not> (\<forall>i < 4. i \<in> set [0, 1::nat])"
    by (auto intro: exI [of _ 2])
  from t [of "[1, 2, 3, 0]"] have a: "target_addrs ''ping''
     [''http://node0:4000'', ''http://node1:4000'', ''http://node2:4000'', ''http://node3:4000''] =
     Return [''http://node0:4000/handler/ping'', ''http://node1:4000/handler/ping'',
      ''http://node2:4000/handler/ping'', ''http://node3:4000/handler/ping'']"
    by blast
  from t [of "[1, 2, 3, 0]"]
  have b: "fst (fetch_all job_cfg job_post [1, 2, 3, 0] ''ping'' job_world) =
     Return ([''http://node0:4000/handler/ping'', ''http://node1:4000/handler/ping'',
      ''http://node2:4000/handler/ping'', ''http://node3:4000/handler/ping''],
     [Inr (Response 200 ''pong''), Inr (Response 404 ''no such handler''),
      Inl (RequestException ''connection refused''), Inr (Response 200 ''pong'')])"
    by (simp only: if_P [OF all])
  from t [of "[0, 1]"]
  have c: "fst (fetch_all job_cfg job_post [0, 1] ''ping'' job_world) = Blocked"
    by (simp only: if_not_P [OF some])
  from a b c show ?thesis by blast
qed

subsection \<open>Transport failures\<close>

text \<open>
  C2, as stated, fails. In the job above the request to rank 2 is refused. \<open>fetch_all\<close>
  returns and holds the refusal as the outcome of rank 2, but a caller does not get it as
  a failure entry: the loop of a route receives the entries of ranks 0 and 1, then the
  exception itself is raised in the loop, past \<open>fetch_all\<close>, and the response of rank 3
  is never delivered.
\<close>

theorem transport_failure_counterexample:
  "fst (fetch_all job_cfg job_post [0, 1, 2, 3] ''ping'' job_world) =
     Return ([''http://node0:4000/handler/ping'', ''http://node1:4000/handler/ping'',
              ''http://node2:4000/handler/ping'', ''http://node3:4000/handler/ping''],
             [Inr (Response 200 ''pong''), Inr (Response 404 ''no such handler''),
              Inl (RequestException ''connection refused''), Inr (Response 200 ''pong'')]) \<and>
   zip_ranks [''http://node0:4000/handler/ping'', ''http://node1:4000/handler/ping'',
              ''http://node2:4000/handler/ping'', ''http://node3:4000/handler/ping'']
             [Inr (Response 200 ''pong''), Inr (Response 404 ''no such handler''),
              Inl (RequestException ''connection refused''), Inr (Response 200 ''pong'')] =
     ([(0, ''http://node0:4000/handler/ping'', Response 200 ''pong''),
       (1, ''http://node1:4000/handler/ping'', Response 404 ''no such handler'')],
      Some (RequestException ''connection refused''))"
proof -
  have "{..<4} \<subseteq> set [0, 1, 2, 3::nat]" by auto
  then show ?thesis
    by (simp add: job_fetch_all zip_ranks_def upt_rec)
qed

text \<open>
  C2, amended. Each rank's outcome is collected independently: when the store has
  resolved every rank and every request has finished, \<open>fetch_all\<close> returns whatever the
  requests did, and the outcome held at position \<open>i\<close> is the outcome of the request to
  rank \<open>i\<close> (a response with any status code, carrying that status and body, or the
  exception of a transport failure), so a failure on one rank neither aborts nor alters
  the requests of the others and is not raised by \<open>fetch_all\<close>. It is not turned into a
  failure entry, though: reading the result, the loop of a route receives the responses
  of the ranks before the first failed one and then that exception (all the responses,
  and no exception, when no request failed).
\<close>

theorem transport_failure_stored_and_reraised:
  assumes "net w (MASTER_ADDR cfg, MASTER_PORT cfg) = Some kv"
    and "\<forall>i < nat (WORLD_SIZE cfg).
           kv (''debug_server/'' @ rank_key (int i)) = Some (addr i) \<and> utf8_valid (addr i)"
    and "\<forall>i < nat (WORLD_SIZE cfg). i \<in> set order"
  shows "\<exists>addrs resps.
     fst (fetch_all cfg post order endpoint w) = Return (addrs, resps) \<and>
     length addrs = nat (WORLD_SIZE cfg) \<and>
     length resps = nat (WORLD_SIZE cfg) \<and>
     (\<forall>i < nat (WORLD_SIZE cfg).
        addrs ! i = addr i @ ''/handler/'' @ endpoint \<and> resps ! i = post (addrs ! i)) \<and>
     (\<forall>rs e rest. resps = map Inr rs @ Inl e # rest \<longrightarrow>
        zip_ranks addrs resps = (zip [0..<length addrs] (zip addrs rs), Some e)) \<and>
     (\<forall>rs. resps = map Inr rs \<longrightarrow>
        zip_ranks addrs resps = (zip [0..<length addrs] (zip addrs rs), None))"
proof -
  let ?n = "nat (WORLD_SIZE cfg)"
  let ?raw = "map addr [0..<?n]"
  let ?addrs = "map (\<lambda>a. a @ ''/handler/'' @ endpoint) ?raw"
  have keys: "map (\<lambda>r. kv (''debug_server/'' @ rank_key r)) (range_py (WORLD_SIZE cfg)) = map Some ?raw"
    using assms(2) by (simp add: range_py_def comp_def)
  have valid: "list_all utf8_valid ?raw"
    using assms(2) by (simp add: list_all_iff)
  have fin: "{..<length ?raw} \<subseteq> set order"
    using assms(3) by auto
  have ret: "fst (fetch_all cfg post order endpoint w) = Return (?addrs, map post ?addrs)"
    unfolding fetch_all_Return_iff using assms(1) keys valid fin by blast
  have nth: "\<forall>i < ?n. ?addrs ! i = addr i @ ''/handler/'' @ endpoint \<and> map post ?addrs ! i = post (?addrs ! i)"
    by simp
  have len: "length ?addrs = ?n" "length (map post ?addrs) = ?n"
    by simp_all
  show ?thesis
  proof (intro exI conjI)
    show "fst (fetch_all cfg post order endpoint w) = Return (?addrs, map post ?addrs)"
      by (rule ret)
    show "length ?addrs = ?n" "length (map post ?addrs) = ?n"
      by (rule len)+
    show "\<forall>i < ?n. ?addrs ! i = addr i @ ''/handler/'' @ endpoint \<and>
        map post ?addrs ! i = post (?addrs ! i)"
      by (rule nth)
    show "\<forall>rs e rest. map post ?addrs = map Inr rs @ Inl e # rest \<longrightarrow>
        zip_ranks ?addrs (map post ?addrs) = (zip [0..<length ?addrs] (zip ?addrs rs), Some e)"
      by (intro allI impI) (rule zip_ranks_first_failure)
    show "\<forall>rs. map post ?addrs = map Inr rs \<longrightarrow>
        zip_ranks ?addrs (map post ?addrs) = (zip [0..<length ?addrs] (zip ?addrs rs), None)"
      by (intro allI impI) (rule zip_ranks_all_ok)
  qed
qed

theorem transport_failure_stored_and_reraised_witness:
  "\<exists>addrs resps.
     fst (fetch_all job_cfg job_post [3, 2, 1, 0] ''ping'' job_world) = Return (addrs, resps) \<and>
     length resps = 4 \<and>
     resps ! 1 = job_post ''http://node1:4000/handler/ping'' \<and>
     resps ! 2 = job_post ''http://node2:4000/handler/ping'' \<and>
     resps ! 3 = job_post ''http://node3:4000/handler/ping'' \<and>
     zip_ranks addrs resps =
       (zip [0..<length addrs] (zip addrs [Response 200 ''pong'', Response 404 ''no such handler'']),
        Some (RequestException ''connection refused''))"
proof -
  have n: "nat (WORLD_SIZE job_cfg) = 4" by (simp add: job_cfg_def)
  have lt4: "i < 4 \<longleftrightarrow> i = 0 \<or> i = 1 \<or> i = 2 \<or> i = 3" for i :: nat by auto
  have store: "net job_world (MASTER_ADDR job_cfg, MASTER_PORT job_cfg) = Some job_store"
    by (simp add: job_world_def job_cfg_def)
  have published: "\<forall>i < nat (WORLD_SIZE job_cfg).
      job_store (''debug_server/'' @ rank_key (int i)) = Some (job_addr i) \<and> utf8_valid (job_addr i)"
    unfolding n lt4
    by (simp add: job_store_def job_addr_def rank_key_def str_int_def str_nat_digit digit_char_def byte_in_def)
  have finished: "\<forall>i < nat (WORLD_SIZE job_cfg). i \<in> set [3, 2, 1, 0::nat]"
    unfolding n lt4 by simp
  from transport_failure_stored_and_reraised [OF store published finished, of job_post "''ping''"]
  obtain addrs resps where
    ret: "fst (fetch_all job_cfg job_post [3, 2, 1, 0] ''ping'' job_world) = Return (addrs, resps)"
    and len: "length addrs = 4" "length resps = 4"
    and nth: "\<forall>i < 4. addrs ! i = job_addr i @ ''/handler/'' @ ''ping'' \<and> resps ! i = job_post (addrs ! i)"
    and raised: "\<forall>rs e rest. resps = map Inr rs @ Inl e # rest \<longrightarrow>
        zip_ranks addrs resps = (zip [0..<length addrs] (zip addrs rs), Some e)"
    unfolding n by blast
  have a: "addrs ! 0 = ''http://node0:4000/handler/ping''" "addrs ! 1 = ''http://node1:4000/handler/ping''"
    "addrs ! 2 = ''http://node2:4000/handler/ping''" "addrs ! 3 = ''http://node3:4000/handler/ping''"
    using nth [rule_format, of 0] nth [rule_format, of 1] nth [rule_format, of 2] nth [rule_format, of 3]
    by (simp_all add: job_addr_def str_nat_digit digit_char_def)
  have r: "resps ! 0 = job_post ''http://node0:4000/handler/ping''"
    "resps ! 1 = job_post ''http://node1:4000/handler/ping''"
    "resps ! 2 = job_post ''http://node2:4000/handler/ping''"
    "resps ! 3 = job_post ''http://node3:4000/handler/ping''"
    using nth [rule_format, of 0] nth [rule_format, of 1] nth [rule_format, of 2] nth [rule_format, of 3] a
    by simp_all
  have "resps = [resps ! 0, resps ! 1, resps ! 2, resps ! 3]"
    using len(2) by (auto simp: list_eq_iff_nth_eq nth_Cons' less_Suc_eq numeral_eq_Suc)
  then have "resps = map Inr [Response 200 ''pong'', Response 404 ''no such handler'']
       @ Inl (RequestException ''connection refused'') # [Inr (Response 200 ''pong'')]"
    unfolding r by (simp add: job_post_def)
  from raised [rule_format, OF this]
  have "zip_ranks addrs resps =
       (zip [0..<length addrs] (zip addrs [Response 200 ''pong'', Response 404 ''no such handler'']),
        Some (RequestException ''connection refused''))" .
  with ret len r show ?thesis by blast
qed

subsection \<open>What \<open>fetch_all\<close> returns\<close>

text \<open>
  C10, as stated, fails in its third part: the second component does not yield one
  response object per target when a request raised. In the job above, whose rank 2
  refuses the connection, reading the second component yields the two responses of ranks
  0 and 1 and then raises; there are four targets.
\<close>

theorem return_shape_counterexample:
  "fst (fetch_all job_cfg job_post [2, 3, 0, 1] ''ping'' job_world) =
     Return ([''http://node0:4000/handler/ping'', ''http://node1:4000/handler/ping'',
              ''http://node2:4000/handler/ping'', ''http://node3:4000/handler/ping''],
             [Inr (Response 200 ''pong''), Inr (Response 404 ''no such handler''),
              Inl (RequestException ''connection refused''), Inr (Response 200 ''pong'')]) \<and>
   result_iterator
             [Inr (Response 200 ''pong''), Inr (Response 404 ''no such handler''),
              Inl (RequestException ''connection refused''), Inr (Response 200 ''pong'')] =
     ([Response 200 ''pong'', Response 404 ''no such handler''],
      Some (RequestException ''connection refused''))"
proof -
  have "{..<4} \<subseteq> set [2, 3, 0, 1::nat]" by auto
  then show ?thesis
    by (simp add: job_fetch_all)
qed

text \<open>
  C10, amended. For every endpoint and world size \<open>N\<close>, what \<open>fetch_all\<close> returns is a
  pair, not the list of bytes of its signature. When the store is reachable and every
  rank has published a decodable address, \<open>fetch_all\<close> returns exactly when every one of
  the \<open>N\<close> requests has been dispatched and has finished, and blocks otherwise. What it
  returns is then this pair: the first component is the list of exactly \<open>N\<close> target
  addresses in rank order (position \<open>i\<close> holds the address of rank \<open>i\<close>), and the second
  component holds the \<open>N\<close> finished requests in the same order. Read by a caller, the
  second component yields the response objects in rank order up to the first rank \<open>k\<close>
  whose request raised, whose exception it raises instead; it yields one response object
  per target when no request raised (\<open>k = N\<close>).
\<close>

theorem return_shape:
  assumes "net w (MASTER_ADDR cfg, MASTER_PORT cfg) = Some kv"
    and "\<forall>i < nat (WORLD_SIZE cfg).
           kv (''debug_server/'' @ rank_key (int i)) = Some (addr i) \<and> utf8_valid (addr i)"
  shows "(\<forall>addrs resps.
        fst (fetch_all cfg post order endpoint w) = Return (addrs, resps) \<longleftrightarrow>
          (\<forall>i < nat (WORLD_SIZE cfg). i \<in> set order) \<and>
          addrs = map (\<lambda>i. addr i @ ''/handler/'' @ endpoint) [0..<nat (WORLD_SIZE cfg)] \<and>
          resps = map (\<lambda>i. post (addr i @ ''/handler/'' @ endpoint)) [0..<nat (WORLD_SIZE cfg)]) \<and>
     ((\<exists>i < nat (WORLD_SIZE cfg). i \<notin> set order) \<longrightarrow>
        fst (fetch_all cfg post order endpoint w) = Blocked) \<and>
     (\<forall>k. k \<le> nat (WORLD_SIZE cfg) \<and>
          (\<forall>i < k. \<not> isl (post (addr i @ ''/handler/'' @ endpoint))) \<and>
          (k < nat (WORLD_SIZE cfg) \<longrightarrow> isl (post (addr k @ ''/handler/'' @ endpoint))) \<longrightarrow>
        result_iterator
            (map (\<lambda>i. post (addr i @ ''/handler/'' @ endpoint)) [0..<nat (WORLD_SIZE cfg)]) =
          (map (\<lambda>i. projr (post (addr i @ ''/handler/'' @ endpoint))) [0..<k],
           if k < nat (WORLD_SIZE cfg)
           then Some (projl (post (addr k @ ''/handler/'' @ endpoint))) else None))"
proof (intro conjI allI impI)
  fix addrs resps
  show "fst (fetch_all cfg post order endpoint w) = Return (addrs, resps) \<longleftrightarrow>
          (\<forall>i < nat (WORLD_SIZE cfg). i \<in> set order) \<and>
          addrs = map (\<lambda>i. addr i @ ''/handler/'' @ endpoint) [0..<nat (WORLD_SIZE cfg)] \<and>
          resps = map (\<lambda>i. post (addr i @ ''/handler/'' @ endpoint)) [0..<nat (WORLD_SIZE cfg)]"
    unfolding fetch_all_resolved(3) [OF assms] by auto
next
  assume "\<exists>i < nat (WORLD_SIZE cfg). i \<notin> set order"
  then show "fst (fetch_all cfg post order endpoint w) = Blocked"
    unfolding fetch_all_resolved(3) [OF assms] by auto
next
  let ?n = "nat (WORLD_SIZE cfg)"
  let ?fs = "map (\<lambda>i. post (addr i @ ''/handler/'' @ endpoint)) [0..<?n]"
  fix k
  assume k: "k \<le> ?n \<and>
          (\<forall>i < k. \<not> isl (post (addr i @ ''/handler/'' @ endpoint))) \<and>
          (k < ?n \<longrightarrow> isl (post (addr k @ ''/handler/'' @ endpoint)))"
  have k1: "k \<le> length ?fs" using k by simp
  have k2: "\<forall>i < k. \<not> isl (?fs ! i)" using k by simp
  have k3: "k < length ?fs \<longrightarrow> isl (?fs ! k)" using k by simp
  have "result_iterator ?fs =
     (map (\<lambda>i. projr (?fs ! i)) [0..<k], if k < length ?fs then Some (projl (?fs ! k)) else None)"
    by (rule result_iterator_upto [OF k1 k2 k3])
  also have "map (\<lambda>i. projr (?fs ! i)) [0..<k] =
      map (\<lambda>i. projr (post (addr i @ ''/handler/'' @ endpoint))) [0..<k]"
    using k by simp
  also have "(if k < length ?fs then Some (projl (?fs ! k)) else None) =
      (if k < ?n then Some (projl (post (addr k @ ''/handler/'' @ endpoint))) else None)"
    by simp
  finally show "result_iterator ?fs =
          (map (\<lambda>i. projr (post (addr i @ ''/handler/'' @ endpoint))) [0..<k],
           if k < ?n then Some (projl (post (addr k @ ''/handler/'' @ endpoint))) else None)" .
qed

theorem return_shape_witness:
  "fst (fetch_all job_cfg job_post [1, 0, 3, 2] ''ping'' job_world) =
     Return ([''http://node0:4000/handler/ping'', ''http://node1:4000/handler/ping'',
      ''http://node2:4000/handler/ping'', ''http://node3:4000/handler/ping''],
     [Inr (Response 200 ''pong''), Inr (Response 404 ''no such handler''),
      Inl (RequestException ''connection refused''), Inr (Response 200 ''pong'')]) \<and>
   fst (fetch_all job_cfg job_post [1, 0, 3] ''ping'' job_world) = Blocked \<and>
   result_iterator
     [Inr (Response 200 ''pong''), Inr (Response 404 ''no such handler''),
      Inl (RequestException ''connection refused''), Inr (Response 200 ''pong'')] =
     ([Response 200 ''pong'', Response 404 ''no such handler''],
      Some (RequestException ''connection refused''))"
proof -
  note t = return_shape [OF job_resolved(1,2), of job_post _ "''ping''",
      unfolded job_resolved(3) job_resolved(5) job_resolved(6)]
  have all: "\<forall>i < 4. i \<in> set [1, 0, 3, 2::nat]"
    by (simp add: less_Suc_eq numeral_eq_Suc)
  have some: "\<exists>i < 4. i \<notin> set [1, 0, 3::nat]"
    by (auto intro: exI [of _ 2])
  have first: "(2::nat) \<le> 4 \<and>
          (\<forall>i < 2. \<not> isl (job_post (job_addr i @ ''/handler/'' @ ''ping''))) \<and>
          ((2::nat) < 4 \<longrightarrow> isl (job_post (job_addr 2 @ ''/handler/'' @ ''ping'')))"
    by (simp add: less_Suc_eq numeral_eq_Suc job_addr_def job_post_def str_nat_digit digit_char_def)
  have upt2: "[0..<2] = [0, 1::nat]" by (simp add: upt_rec)
  from t [of "[1, 0, 3, 2]"] all
  have a: "fst (fetch_all job_cfg job_post [1, 0, 3, 2] ''ping'' job_world) =
     Return ([''http://node0:4000/handler/ping'', ''http://node1:4000/handler/ping'',
      ''http://node2:4000/handler/ping'', ''http://node3:4000/handler/ping''],
     [Inr (Response 200 ''pong''), Inr (Response 404 ''no such handler''),
      Inl (RequestException ''connection refused''), Inr (Response 200 ''pong'')])"
    by blast
  from t [of "[1, 0, 3]"] some
  have b: "fst (fetch_all job_cfg job_post [1, 0, 3] ''ping'' job_world) = Blocked"
    by blast
  from t [of "[1, 0, 3, 2]", THEN conjunct2, THEN conjunct2, rule_format, OF first]
  have c: "result_iterator
     [Inr (Response 200 ''pong''), Inr (Response 404 ''no such handler''),
      Inl (RequestException ''connection refused''), Inr (Response 200 ''pong'')] =
     ([Response 200 ''pong'', Response 404 ''no such handler''],
      Some (RequestException ''connection refused''))"
    by (simp add: upt2 job_addr_def job_post_def str_nat_digit digit_char_def)
  from a b c show ?thesis by blast
qed

subsection \<open>The worker side\<close>

lemma enable_debug_server_unreachable:
  "net w (MASTER_ADDR cfg, MASTER_PORT cfg) = None \<Longrightarrow>
   enable_debug_server cfg host bound w = (Raise DistStoreError, w)"
  by (simp add: enable_debug_server_def tcpstore_client_def)

lemma enable_debug_server_bind_failed:
  "net w (MASTER_ADDR cfg, MASTER_PORT cfg) = Some kv \<Longrightarrow>
   enable_debug_server cfg host (Inl e) w = (Raise e, w)"
  by (simp add: enable_debug_server_def tcpstore_client_def)

lemma enable_debug_server_bound:
  fixes cfg host port w
  defines "w' \<equiv> snd (enable_debug_server cfg host (Inr port) w)"
  assumes "net w (MASTER_ADDR cfg, MASTER_PORT cfg) = Some kv"
  shows "fst (enable_debug_server cfg host (Inr port) w) = Return ()"
    and "trace w' = trace w @
           [WorkerServerStart port,
            StoreSet (MASTER_ADDR cfg, MASTER_PORT cfg) (''debug_server/'' @ rank_key (RANK cfg))
              (''http://'' @ host @ '':'' @ str_nat port)] @
           (if RANK cfg = 0 then [ProcessStart] else [])"
    and "net w' = (net w)((MASTER_ADDR cfg, MASTER_PORT cfg) \<mapsto>
           kv(''debug_server/'' @ rank_key (RANK cfg) \<mapsto> ''http://'' @ host @ '':'' @ str_nat port))"
    and "worker_server w' = Some port"
    and "handlers w' = handlers w"
  using assms(2) unfolding w'_def
  by (simp_all add: enable_debug_server_def tcpstore_client_def store_set_def Let_def)

text \<open>
  C7. In \<open>enable_debug_server\<close> the address of a worker is published only after the
  bind of the debug endpoint to an ephemeral port has succeeded, and the published string
  carries the port that the bind assigned. When the bind fails the call raises and leaves
  the world as it was; in every run, a store write in the trace of the call comes after
  the start of the server, whose port is the one in the value written; and when the store
  is reachable and the bind succeeds, the address is indeed written under the key of the
  rank.
\<close>

theorem publish_after_bind:
  "(\<forall>e. bound = Inl e \<longrightarrow>
      snd (enable_debug_server cfg host bound w) = w \<and>
      fst (enable_debug_server cfg host bound w) \<noteq> Return ()) \<and>
   (\<exists>evs. trace (snd (enable_debug_server cfg host bound w)) = trace w @ evs \<and>
      (\<forall>pre loc k v post. evs = pre @ StoreSet loc k v # post \<longrightarrow>
         (\<exists>port. bound = Inr port \<and> WorkerServerStart port \<in> set pre \<and>
            worker_server (snd (enable_debug_server cfg host bound w)) = Some port \<and>
            v = ''http://'' @ host @ '':'' @ str_nat port))) \<and>
   (\<forall>kv port. net w (MASTER_ADDR cfg, MASTER_PORT cfg) = Some kv \<and> bound = Inr port \<longrightarrow>
      fst (enable_debug_server cfg host bound w) = Return () \<and>
      net (snd (enable_debug_server cfg host bound w)) (MASTER_ADDR cfg, MASTER_PORT cfg) =
        Some (kv(''debug_server/'' @ rank_key (RANK cfg) \<mapsto> ''http://'' @ host @ '':'' @ str_nat port)))"
proof (cases "net w (MASTER_ADDR cfg, MASTER_PORT cfg)")
  case None
  have "trace w = trace w @ []" by simp
  with enable_debug_server_unreachable [OF None, of host bound] None show ?thesis
    by (auto simp del: append_Nil2)
next
  case (Some kv)
  show ?thesis
  proof (cases bound)
    case (Inl e)
    have "trace w = trace w @ []" by simp
    with enable_debug_server_bind_failed [OF Some, of host e] Inl Some show ?thesis
      by (auto simp del: append_Nil2)
  next
    case (Inr port)
    let ?w' = "snd (enable_debug_server cfg host (Inr port) w)"
    let ?set = "StoreSet (MASTER_ADDR cfg, MASTER_PORT cfg) (''debug_server/'' @ rank_key (RANK cfg))
              (''http://'' @ host @ '':'' @ str_nat port)"
    let ?evs = "[WorkerServerStart port, ?set] @ (if RANK cfg = 0 then [ProcessStart] else [])"
    note b = enable_debug_server_bound [OF Some, of host port]
    have order: "\<exists>p. Inr port = (Inr p :: py_error + nat) \<and> WorkerServerStart p \<in> set pre \<and>
            worker_server ?w' = Some p \<and> v = ''http://'' @ host @ '':'' @ str_nat p"
      if "?evs = pre @ StoreSet loc k v # post" for pre loc k v post
    proof -
      from that have "pre = [WorkerServerStart port] \<and> v = ''http://'' @ host @ '':'' @ str_nat port"
        by (cases pre; cases "tl pre"; cases "tl (tl pre)") (auto split: if_splits)
      with b(4) show ?thesis by simp
    qed
    have "trace ?w' = trace w @ ?evs" by (rule b(2))
    with order b(1) b(3) Inr Some show ?thesis
      by (auto simp del: append.simps)
  qed
qed

theorem publish_after_bind_witness:
  "snd (enable_debug_server (job_cfg\<lparr>RANK := 2\<rparr>) ''node2'' (Inl BindError) job_world) = job_world \<and>
   (\<exists>port. (Inr 4711 :: py_error + nat) = Inr port \<and>
      WorkerServerStart port \<in> set [WorkerServerStart 4711] \<and>
      ''http://node2:4711'' = ''http://'' @ ''node2'' @ '':'' @ str_nat port) \<and>
   net (snd (enable_debug_server (job_cfg\<lparr>RANK := 2\<rparr>) ''node2'' (Inr 4711) job_world))
       (''master'', 29500) =
     Some (job_store(''debug_server/rank2'' \<mapsto> ''http://node2:4711''))"
proof -
  let ?cfg = "job_cfg\<lparr>RANK := 2\<rparr>"
  let ?run = "enable_debug_server ?cfg ''node2'' (Inr 4711) job_world"
  have store: "net job_world (MASTER_ADDR ?cfg, MASTER_PORT ?cfg) = Some job_store"
    by (simp add: job_world_def job_cfg_def)
  have port: "str_nat 4711 = ''4711''"
    by (simp add: str_nat.simps digit_char_def)
  have rk: "rank_key 2 = ''rank2''"
    by (simp add: rank_key_def str_int_def str_nat_digit digit_char_def)
  have key: "''debug_server/'' @ rank_key (RANK ?cfg) = ''debug_server/rank2''"
    by (simp add: rk)
  have failed: "snd (enable_debug_server ?cfg ''node2'' (Inl BindError) job_world) = job_world"
    using publish_after_bind [of "Inl BindError" ?cfg "''node2''" job_world] by simp
  from publish_after_bind [of "Inr 4711" ?cfg "''node2''" job_world]
  obtain evs where
    evs: "trace (snd ?run) = trace job_world @ evs"
    and after: "\<forall>pre loc k v post. evs = pre @ StoreSet loc k v # post \<longrightarrow>
         (\<exists>port. (Inr 4711 :: py_error + nat) = Inr port \<and> WorkerServerStart port \<in> set pre \<and>
            worker_server (snd ?run) = Some port \<and>
            v = ''http://'' @ ''node2'' @ '':'' @ str_nat port)"
    and written: "net (snd ?run) (MASTER_ADDR ?cfg, MASTER_PORT ?cfg) =
        Some (job_store(''debug_server/'' @ rank_key (RANK ?cfg) \<mapsto>
                ''http://'' @ ''node2'' @ '':'' @ str_nat 4711))"
    using store by blast
  have "trace (snd ?run) =
      [WorkerServerStart 4711,
       StoreSet (''master'', 29500) ''debug_server/rank2'' ''http://node2:4711'']"
    using enable_debug_server_bound(2) [OF store, of "''node2''" 4711]
    by (simp add: port rk job_world_def job_cfg_def)
  with evs have "evs = [WorkerServerStart 4711] @
       StoreSet (''master'', 29500) ''debug_server/rank2'' ''http://node2:4711'' # []"
    by (simp add: job_world_def)
  from after [rule_format, OF this]
  have "\<exists>port. (Inr 4711 :: py_error + nat) = Inr port \<and>
      WorkerServerStart port \<in> set [WorkerServerStart 4711] \<and>
      ''http://node2:4711'' = ''http://'' @ ''node2'' @ '':'' @ str_nat port"
    by blast
  moreover from written have "net (snd ?run) (''master'', 29500) =
     Some (job_store(''debug_server/rank2'' \<mapsto> ''http://node2:4711''))"
    unfolding key port by (simp add: job_cfg_def)
  ultimately show ?thesis using failed by blast
qed

subsection \<open>Registration before the server starts\<close>

lemma enable_debug_server_trace:
  "\<exists>evs. trace (snd (enable_debug_server cfg host bound w)) = trace w @ evs \<and>
      (\<forall>name. RegisterHandler name \<notin> set evs) \<and>
      handlers (snd (enable_debug_server cfg host bound w)) = handlers w"
proof (cases "net w (MASTER_ADDR cfg, MASTER_PORT cfg)")
  case None
  show ?thesis
    unfolding enable_debug_server_unreachable [OF None] by simp
next
  case (Some kv)
  show ?thesis
  proof (cases bound)
    case (Inl e)
    show ?thesis
      unfolding Inl enable_debug_server_bind_failed [OF Some] by simp
  next
    case (Inr port)
    show ?thesis
      unfolding Inr using enable_debug_server_bound(2,5) [OF Some, of host port]
      by simp
  qed
qed

lemma module_init_world:
  "snd (module_init py_int env w) =
     w\<lparr>handlers := (handlers w)(''torch_profile'' \<mapsto> Handler ''_torch_profile''),
       trace := trace w @ [RegisterHandler ''torch_profile'']\<rparr>"
  by (simp add: module_init_def register_handler_def Let_def)

lemma import_and_enable_cases:
  "import_and_enable py_int env host bound w =
     (case fst (module_init py_int env w) of
        Return cfg \<Rightarrow> enable_debug_server cfg host bound (snd (module_init py_int env w))
      | Raise e \<Rightarrow> (Raise e, snd (module_init py_int env w))
      | Blocked \<Rightarrow> (Blocked, snd (module_init py_int env w)))"
  by (simp add: import_and_enable_def split: prod.splits result.splits)

text \<open>
  C8. The handler registry is populated before the worker debug endpoint starts: in a
  worker that imports the module and calls \<open>enable_debug_server\<close>, the registration of
  \<^verbatim>\<open>torch_profile\<close> is the first effect, no registration follows it, and the registry at
  the end is the registry of the import. So a start of the server in the trace has the
  registration before it and no registration after it.
\<close>

theorem registry_populated_before_server:
  "\<exists>evs.
     trace (snd (import_and_enable py_int env host bound w)) =
       trace w @ RegisterHandler ''torch_profile'' # evs \<and>
     (\<forall>name. RegisterHandler name \<notin> set evs) \<and>
     handlers (snd (import_and_enable py_int env host bound w)) =
       (handlers w)(''torch_profile'' \<mapsto> Handler ''_torch_profile'') \<and>
     (\<forall>pre port post.
        RegisterHandler ''torch_profile'' # evs = pre @ WorkerServerStart port # post \<longrightarrow>
        RegisterHandler ''torch_profile'' \<in> set pre \<and>
        (\<forall>name. RegisterHandler name \<notin> set post))"
proof -
  let ?w1 = "snd (module_init py_int env w)"
  let ?reg = "RegisterHandler ''torch_profile''"
  have w1: "trace ?w1 = trace w @ [?reg]"
    "handlers ?w1 = (handlers w)(''torch_profile'' \<mapsto> Handler ''_torch_profile'')"
    by (simp_all add: module_init_world)
  have "\<exists>evs. trace (snd (import_and_enable py_int env host bound w)) = trace ?w1 @ evs \<and>
      (\<forall>name. RegisterHandler name \<notin> set evs) \<and>
      handlers (snd (import_and_enable py_int env host bound w)) = handlers ?w1"
  proof (cases "fst (module_init py_int env w)")
    case (Return cfg)
    then show ?thesis
      using enable_debug_server_trace [of cfg host bound ?w1]
      by (simp add: import_and_enable_cases)
  next
    case (Raise e)
    then show ?thesis by (simp add: import_and_enable_cases)
  next
    case Blocked
    then show ?thesis by (simp add: import_and_enable_cases)
  qed
  then obtain evs where
    tr: "trace (snd (import_and_enable py_int env host bound w)) = trace w @ ?reg # evs"
    and noreg: "\<forall>name. RegisterHandler name \<notin> set evs"
    and h: "handlers (snd (import_and_enable py_int env host bound w)) =
       (handlers w)(''torch_profile'' \<mapsto> Handler ''_torch_profile'')"
    unfolding w1 by auto
  have split: "?reg \<in> set pre \<and> (\<forall>name. RegisterHandler name \<notin> set post)"
    if eq: "?reg # evs = pre @ WorkerServerStart port # post" for pre port post
  proof (cases pre)
    case Nil
    with eq show ?thesis by simp
  next
    case (Cons e pre')
    with eq have "e = ?reg" and "evs = pre' @ WorkerServerStart port # post" by simp_all
    with noreg Cons show ?thesis by auto
  qed
  from tr noreg h split show ?thesis by blast
qed

lemma job_module_init:
  "fst (module_init dec_int job_env w) = Return (job_cfg\<lparr>RANK := 2\<rparr>)"
  by (simp add: module_init_def environ_int_def environ_get_def job_env_def job_cfg_def
      dec_int_def digit_val_def byte_in_def Let_def)

theorem registry_populated_before_server_witness:
  "trace (snd (import_and_enable dec_int job_env ''node2'' (Inr 4711) job_world)) =
     [RegisterHandler ''torch_profile'', WorkerServerStart 4711,
      StoreSet (''master'', 29500) ''debug_server/rank2'' ''http://node2:4711''] \<and>
   RegisterHandler ''torch_profile'' \<in> set [RegisterHandler ''torch_profile''] \<and>
   handlers (snd (import_and_enable dec_int job_env ''node2'' (Inr 4711) job_world)) =
     [''torch_profile'' \<mapsto> Handler ''_torch_profile'']"
proof -
  let ?cfg = "job_cfg\<lparr>RANK := 2\<rparr>"
  let ?run = "import_and_enable dec_int job_env ''node2'' (Inr 4711) job_world"
  let ?w1 = "snd (module_init dec_int job_env job_world)"
  have store: "net ?w1 (MASTER_ADDR ?cfg, MASTER_PORT ?cfg) = Some job_store"
    by (simp add: module_init_world job_world_def job_cfg_def)
  have port: "str_nat 4711 = ''4711''"
    by (simp add: str_nat.simps digit_char_def)
  have rk: "rank_key 2 = ''rank2''"
    by (simp add: rank_key_def str_int_def str_nat_digit digit_char_def)
  have run: "?run = enable_debug_server ?cfg ''node2'' (Inr 4711) ?w1"
    by (simp add: import_and_enable_cases job_module_init)
  have tr: "trace (snd ?run) =
     [RegisterHandler ''torch_profile'', WorkerServerStart 4711,
      StoreSet (''master'', 29500) ''debug_server/rank2'' ''http://node2:4711'']"
    unfolding run enable_debug_server_bound(2) [OF store]
    by (simp add: port rk module_init_world job_world_def job_cfg_def)
  from registry_populated_before_server [of dec_int job_env "''node2''" "Inr 4711" job_world]
  obtain evs where
    evs: "trace (snd ?run) = trace job_world @ RegisterHandler ''torch_profile'' # evs"
    and h: "handlers (snd ?run) = (handlers job_world)(''torch_profile'' \<mapsto> Handler ''_torch_profile'')"
    and before: "\<forall>pre port post.
        RegisterHandler ''torch_profile'' # evs = pre @ WorkerServerStart port # post \<longrightarrow>
        RegisterHandler ''torch_profile'' \<in> set pre \<and>
        (\<forall>name. RegisterHandler name \<notin> set post)"
    by blast
  from evs tr have "RegisterHandler ''torch_profile'' # evs =
      [RegisterHandler ''torch_profile''] @ WorkerServerStart 4711 #
      [StoreSet (''master'', 29500) ''debug_server/rank2'' ''http://node2:4711'']"
    by (simp add: job_world_def)
  from before [rule_format, OF this]
  have "RegisterHandler ''torch_profile'' \<in> set [RegisterHandler ''torch_profile'']" by blast
  moreover from h have "handlers (snd ?run) = [''torch_profile'' \<mapsto> Handler ''_torch_profile'']"
    by (simp add: job_world_def)
  ultimately show ?thesis using tr by blast
qed

subsection \<open>Configuration from the environment\<close>

lemma config_eq_iff:
  "(cfg :: config) = \<lparr>MASTER_ADDR = a, MASTER_PORT = p, RANK = r, WORLD_SIZE = n\<rparr> \<longleftrightarrow>
     MASTER_ADDR cfg = a \<and> MASTER_PORT cfg = p \<and> RANK cfg = r \<and> WORLD_SIZE cfg = n"
  by (cases cfg) auto

lemma module_init_Return_iff:
  "fst (module_init py_int env w) = Return cfg \<longleftrightarrow>
     env ''MASTER_ADDR'' = Some (MASTER_ADDR cfg) \<and>
     (\<exists>p. env ''MASTER_PORT'' = Some p \<and> py_int p = Some (MASTER_PORT cfg)) \<and>
     (\<exists>r. env ''RANK'' = Some r \<and> py_int r = Some (RANK cfg)) \<and>
     (\<exists>n. env ''WORLD_SIZE'' = Some n \<and> py_int n = Some (WORLD_SIZE cfg))"
  by (auto simp: module_init_def environ_int_def environ_get_def Let_def bind_r_Return_iff
      config_eq_iff split: option.splits)

lemma module_init_Raise:
  assumes "\<forall>c. fst (module_init py_int env w) \<noteq> Return c"
  shows "\<exists>e. fst (module_init py_int env w) = Raise e \<and>
     ((\<exists>k. k \<in> {''MASTER_ADDR'', ''MASTER_PORT'', ''RANK'', ''WORLD_SIZE''} \<and>
           env k = None \<and> e = KeyError k) \<or>
      (\<exists>k v. k \<in> {''MASTER_PORT'', ''RANK'', ''WORLD_SIZE''} \<and>
           env k = Some v \<and> py_int v = None \<and> e = ValueError v))"
proof (cases "env ''MASTER_ADDR''")
  case None
  then show ?thesis
    by (auto simp: module_init_def environ_get_def Let_def)
next
  case a: (Some a)
  show ?thesis
  proof (cases "env ''MASTER_PORT''")
    case None
    with a show ?thesis
      by (auto simp: module_init_def environ_int_def environ_get_def Let_def)
  next
    case p: (Some p)
    show ?thesis
    proof (cases "py_int p")
      case None
      with a p show ?thesis
        by (auto simp: module_init_def environ_int_def environ_get_def Let_def)
    next
      case pi: (Some pi)
      show ?thesis
      proof (cases "env ''RANK''")
        case None
        with a p pi show ?thesis
          by (auto simp: module_init_def environ_int_def environ_get_def Let_def)
      next
        case r: (Some r)
        show ?thesis
        proof (cases "py_int r")
          case None
          with a p pi r show ?thesis
            by (auto simp: module_init_def environ_int_def environ_get_def Let_def)
        next
          case ri: (Some ri)
          show ?thesis
          proof (cases "env ''WORLD_SIZE''")
            case None
            with a p pi r ri show ?thesis
              by (auto simp: module_init_def environ_int_def environ_get_def Let_def)
          next
            case n: (Some n)
            show ?thesis
            proof (cases "py_int n")
              case None
              with a p pi r ri n show ?thesis
                by (auto simp: module_init_def environ_int_def environ_get_def Let_def)
            next
              case (Some ni)
              with a p pi r ri n assms show ?thesis
                by (simp add: module_init_def environ_int_def environ_get_def Let_def)
            qed
          qed
        qed
      qed
    qed
  qed
qed

text \<open>
  C9. The configuration (\<^verbatim>\<open>MASTER_ADDR\<close>, \<^verbatim>\<open>MASTER_PORT\<close>, \<^verbatim>\<open>RANK\<close>, \<^verbatim>\<open>WORLD_SIZE\<close>) is read
  when the module is imported. The import succeeds exactly when the four variables are
  present and the three integer ones are accepted by \<^verbatim>\<open>int\<close>, and then the module's
  globals are exactly the values read. Otherwise the import raises (a \<^verbatim>\<open>KeyError\<close> for
  an absent variable, a \<^verbatim>\<open>ValueError\<close> for one that is not an integer), and a worker that
  goes on to enable the debug server gets that exception: no server is started and the
  store is not touched.
\<close>

theorem module_init_validates_config:
  "(fst (module_init py_int env w) = Return cfg \<longleftrightarrow>
      env ''MASTER_ADDR'' = Some (MASTER_ADDR cfg) \<and>
      (\<exists>p. env ''MASTER_PORT'' = Some p \<and> py_int p = Some (MASTER_PORT cfg)) \<and>
      (\<exists>r. env ''RANK'' = Some r \<and> py_int r = Some (RANK cfg)) \<and>
      (\<exists>n. env ''WORLD_SIZE'' = Some n \<and> py_int n = Some (WORLD_SIZE cfg))) \<and>
   ((\<forall>c. fst (module_init py_int env w) \<noteq> Return c) \<longrightarrow>
      (\<exists>e. fst (module_init py_int env w) = Raise e \<and>
         ((\<exists>k. k \<in> {''MASTER_ADDR'', ''MASTER_PORT'', ''RANK'', ''WORLD_SIZE''} \<and>
               env k = None \<and> e = KeyError k) \<or>
          (\<exists>k v. k \<in> {''MASTER_PORT'', ''RANK'', ''WORLD_SIZE''} \<and>
               env k = Some v \<and> py_int v = None \<and> e = ValueError v)) \<and>
         fst (import_and_enable py_int env host bound w) = Raise e \<and>
         worker_server (snd (import_and_enable py_int env host bound w)) = worker_server w \<and>
         net (snd (import_and_enable py_int env host bound w)) = net w))"
proof (intro conjI impI)
  show "fst (module_init py_int env w) = Return cfg \<longleftrightarrow>
      env ''MASTER_ADDR'' = Some (MASTER_ADDR cfg) \<and>
      (\<exists>p. env ''MASTER_PORT'' = Some p \<and> py_int p = Some (MASTER_PORT cfg)) \<and>
      (\<exists>r. env ''RANK'' = Some r \<and> py_int r = Some (RANK cfg)) \<and>
      (\<exists>n. env ''WORLD_SIZE'' = Some n \<and> py_int n = Some (WORLD_SIZE cfg))"
    by (rule module_init_Return_iff)
next
  assume no: "\<forall>c. fst (module_init py_int env w) \<noteq> Return c"
  from module_init_Raise [OF no] obtain e where
    e: "fst (module_init py_int env w) = Raise e"
    and why: "(\<exists>k. k \<in> {''MASTER_ADDR'', ''MASTER_PORT'', ''RANK'', ''WORLD_SIZE''} \<and>
               env k = None \<and> e = KeyError k) \<or>
          (\<exists>k v. k \<in> {''MASTER_PORT'', ''RANK'', ''WORLD_SIZE''} \<and>
               env k = Some v \<and> py_int v = None \<and> e = ValueError v)"
    by blast
  have "import_and_enable py_int env host bound w = (Raise e, snd (module_init py_int env w))"
    by (simp add: import_and_enable_cases e)
  then have "fst (import_and_enable py_int env host bound w) = Raise e"
    and "worker_server (snd (import_and_enable py_int env host bound w)) = worker_server w"
    and "net (snd (import_and_enable py_int env host bound w)) = net w"
    by (simp_all add: module_init_world)
  with e why show "\<exists>e. fst (module_init py_int env w) = Raise e \<and>
         ((\<exists>k. k \<in> {''MASTER_ADDR'', ''MASTER_PORT'', ''RANK'', ''WORLD_SIZE''} \<and>
               env k = None \<and> e = KeyError k) \<or>
          (\<exists>k v. k \<in> {''MASTER_PORT'', ''RANK'', ''WORLD_SIZE''} \<and>
               env k = Some v \<and> py_int v = None \<and> e = ValueError v)) \<and>
         fst (import_and_enable py_int env host bound w) = Raise e \<and>
         worker_server (snd (import_and_enable py_int env host bound w)) = worker_server w \<and>
         net (snd (import_and_enable py_int env host bound w)) = net w"
    by blast
qed

theorem module_init_validates_config_witness:
  "fst (module_init dec_int job_env job_world) =
     Return \<lparr>MASTER_ADDR = ''master'', MASTER_PORT = 29500, RANK = 2, WORLD_SIZE = 4\<rparr> \<and>
   fst (module_init dec_int (job_env(''WORLD_SIZE'' \<mapsto> ''four'')) job_world) =
     Raise (ValueError ''four'') \<and>
   fst (import_and_enable dec_int (job_env(''WORLD_SIZE'' \<mapsto> ''four'')) ''node2'' (Inr 4711) job_world) =
     Raise (ValueError ''four'') \<and>
   fst (module_init dec_int (job_env(''RANK'' := None)) job_world) = Raise (KeyError ''RANK'') \<and>
   net (snd (import_and_enable dec_int (job_env(''RANK'' := None)) ''node2'' (Inr 4711) job_world)) =
     net job_world"
proof -
  let ?cfg = "\<lparr>MASTER_ADDR = ''master'', MASTER_PORT = 29500, RANK = 2, WORLD_SIZE = 4\<rparr>"
  let ?bad = "job_env(''WORLD_SIZE'' \<mapsto> ''four'')"
  let ?missing = "job_env(''RANK'' := None)"
  have ok: "fst (module_init dec_int job_env job_world) = Return ?cfg"
    using module_init_validates_config [of dec_int job_env job_world ?cfg]
    by (simp add: job_env_def dec_int_def digit_val_def byte_in_def)
  have bad: "fst (module_init dec_int ?bad job_world) = Raise (ValueError ''four'')"
    by (simp add: module_init_def environ_int_def environ_get_def job_env_def
        dec_int_def digit_val_def byte_in_def Let_def)
  have missing: "fst (module_init dec_int ?missing job_world) = Raise (KeyError ''RANK'')"
    by (simp add: module_init_def environ_int_def environ_get_def job_env_def
        dec_int_def digit_val_def byte_in_def Let_def)
  from bad have "\<forall>c. fst (module_init dec_int ?bad job_world) \<noteq> Return c" by simp
  with module_init_validates_config [of dec_int ?bad job_world ?cfg "''node2''" "Inr 4711"] bad
  have b: "fst (import_and_enable dec_int ?bad ''node2'' (Inr 4711) job_world) = Raise (ValueError ''four'')"
    by auto
  from missing have "\<forall>c. fst (module_init dec_int ?missing job_world) \<noteq> Return c" by simp
  with module_init_validates_config [of dec_int ?missing job_world ?cfg "''node2''" "Inr 4711"]
  have m: "net (snd (import_and_enable dec_int ?missing ''node2'' (Inr 4711) job_world)) = net job_world"
    by blast
  from ok bad b missing m show ?thesis by blast
qed

subsection \<open>The rendezvous keys\<close>

lemma full_key_inj: "full_key st k = full_key st k' \<longleftrightarrow> k = k'"
  by (induction st arbitrary: k k') auto

lemma snd_fetch_all:
  "snd (fetch_all cfg post order endpoint w) =
     (case net w (MASTER_ADDR cfg, MASTER_PORT cfg) of
        None \<Rightarrow> w
      | Some kv \<Rightarrow>
          w\<lparr>trace := trace w @
             [StoreGet (MASTER_ADDR cfg, MASTER_PORT cfg)
                (map (\<lambda>r. ''debug_server/'' @ rank_key r) (range_py (WORLD_SIZE cfg)))]\<rparr>)"
  by (simp add: fetch_all_def tcpstore_client_def multi_get_def Let_def comp_def
      split: option.splits)

lemma nth_range_py: "0 \<le> r \<Longrightarrow> r < n \<Longrightarrow> range_py n ! nat r = r"
  by (simp add: range_py_def)

lemma length_range_py: "length (range_py n) = nat n"
  by (simp add: range_py_def)

text \<open>
  C6. Every key of the store that this module reads or writes lies under the one prefix
  \<^verbatim>\<open>debug_server\<close>. Both sides obtain their store from \<open>tcpstore_client\<close>, whose view maps a
  key \<open>k\<close> to \<^verbatim>\<open>debug_server/k\<close>. The only write of \<open>enable_debug_server\<close> is to
  \<^verbatim>\<open>debug_server/rank<RANK>\<close> and it reads nothing; the only read of \<open>fetch_all\<close> is of the
  keys \<^verbatim>\<open>debug_server/rank0\<close> to \<^verbatim>\<open>debug_server/rank<N-1>\<close> in this order and it writes
  nothing; for a rank \<open>r\<close> below the world size, the key the worker of rank \<open>r\<close> writes is
  the key the coordinator reads at position \<open>r\<close>. Every other key of the store, and every
  other store, is left as it was.
\<close>

theorem debug_keys_scoped:
  "(\<forall>st. tcpstore_client wc w = Return st \<longrightarrow> (\<forall>k. full_key st k = ''debug_server/'' @ k)) \<and>
   (\<exists>evs. trace (snd (enable_debug_server wc host bound w)) = trace w @ evs \<and>
      (\<forall>loc k v. StoreSet loc k v \<in> set evs \<longrightarrow>
         loc = (MASTER_ADDR wc, MASTER_PORT wc) \<and> k = ''debug_server/'' @ rank_key (RANK wc)) \<and>
      (\<forall>loc ks. StoreGet loc ks \<notin> set evs)) \<and>
   (\<exists>evs. trace (snd (fetch_all cc post order endpoint w)) = trace w @ evs \<and>
      (\<forall>loc ks. StoreGet loc ks \<in> set evs \<longrightarrow>
         loc = (MASTER_ADDR cc, MASTER_PORT cc) \<and>
         ks = map (\<lambda>r. ''debug_server/'' @ rank_key r) (range_py (WORLD_SIZE cc))) \<and>
      (\<forall>loc k v. StoreSet loc k v \<notin> set evs)) \<and>
   (0 \<le> RANK wc \<and> RANK wc < WORLD_SIZE cc \<longrightarrow>
      map (\<lambda>r. ''debug_server/'' @ rank_key r) (range_py (WORLD_SIZE cc)) ! nat (RANK wc) =
        ''debug_server/'' @ rank_key (RANK wc)) \<and>
   (\<forall>loc k. loc \<noteq> (MASTER_ADDR wc, MASTER_PORT wc) \<or> k \<noteq> ''debug_server/'' @ rank_key (RANK wc) \<longrightarrow>
      map_option (\<lambda>kv. kv k) (net (snd (enable_debug_server wc host bound w)) loc) =
      map_option (\<lambda>kv. kv k) (net w loc)) \<and>
   net (snd (fetch_all cc post order endpoint w)) = net w"
proof (intro conjI)
  show "\<forall>st. tcpstore_client wc w = Return st \<longrightarrow> (\<forall>k. full_key st k = ''debug_server/'' @ k)"
    by (auto simp: tcpstore_client_Return)
next
  show "\<exists>evs. trace (snd (enable_debug_server wc host bound w)) = trace w @ evs \<and>
      (\<forall>loc k v. StoreSet loc k v \<in> set evs \<longrightarrow>
         loc = (MASTER_ADDR wc, MASTER_PORT wc) \<and> k = ''debug_server/'' @ rank_key (RANK wc)) \<and>
      (\<forall>loc ks. StoreGet loc ks \<notin> set evs)"
  proof (cases "net w (MASTER_ADDR wc, MASTER_PORT wc)")
    case None
    show ?thesis
      unfolding enable_debug_server_unreachable [OF None] by simp
  next
    case (Some kv)
    show ?thesis
    proof (cases bound)
      case (Inl e)
      show ?thesis
        unfolding Inl enable_debug_server_bind_failed [OF Some] by simp
    next
      case (Inr port)
      show ?thesis
        unfolding Inr using enable_debug_server_bound(2) [OF Some, of host port]
        by simp
    qed
  qed
next
  show "\<exists>evs. trace (snd (fetch_all cc post order endpoint w)) = trace w @ evs \<and>
      (\<forall>loc ks. StoreGet loc ks \<in> set evs \<longrightarrow>
         loc = (MASTER_ADDR cc, MASTER_PORT cc) \<and>
         ks = map (\<lambda>r. ''debug_server/'' @ rank_key r) (range_py (WORLD_SIZE cc))) \<and>
      (\<forall>loc k v. StoreSet loc k v \<notin> set evs)"
    by (cases "net w (MASTER_ADDR cc, MASTER_PORT cc)") (simp_all add: snd_fetch_all)
next
  show "0 \<le> RANK wc \<and> RANK wc < WORLD_SIZE cc \<longrightarrow>
      map (\<lambda>r. ''debug_server/'' @ rank_key r) (range_py (WORLD_SIZE cc)) ! nat (RANK wc) =
        ''debug_server/'' @ rank_key (RANK wc)"
    by (simp add: length_range_py nth_range_py)
next
  show "\<forall>loc k. loc \<noteq> (MASTER_ADDR wc, MASTER_PORT wc) \<or> k \<noteq> ''debug_server/'' @ rank_key (RANK wc) \<longrightarrow>
      map_option (\<lambda>kv. kv k) (net (snd (enable_debug_server wc host bound w)) loc) =
      map_option (\<lambda>kv. kv k) (net w loc)"
  proof (cases "net w (MASTER_ADDR wc, MASTER_PORT wc)")
    case None
    show ?thesis
      unfolding enable_debug_server_unreachable [OF None] by simp
  next
    case (Some kv)
    show ?thesis
    proof (cases bound)
      case (Inl e)
      show ?thesis
        unfolding Inl enable_debug_server_bind_failed [OF Some] by simp
    next
      case (Inr port)
      show ?thesis
        unfolding Inr enable_debug_server_bound(3) [OF Some, of host port]
        using Some by auto
    qed
  qed
next
  show "net (snd (fetch_all cc post order endpoint w)) = net w"
    by (cases "net w (MASTER_ADDR cc, MASTER_PORT cc)") (simp_all add: snd_fetch_all)
qed

theorem debug_keys_scoped_witness:
  "full_key (PrefixStore ''debug_server'' (TCPStore ''master'' 29500)) ''rank2'' = ''debug_server/rank2'' \<and>
   trace (snd (enable_debug_server (job_cfg\<lparr>RANK := 2\<rparr>) ''node2'' (Inr 4711) job_world)) =
     [WorkerServerStart 4711,
      StoreSet (''master'', 29500) ''debug_server/rank2'' ''http://node2:4711''] \<and>
   trace (snd (fetch_all job_cfg job_post [0, 1, 2, 3] ''ping'' job_world)) =
     [StoreGet (''master'', 29500)
        [''debug_server/rank0'', ''debug_server/rank1'', ''debug_server/rank2'', ''debug_server/rank3'']] \<and>
   [''debug_server/rank0'', ''debug_server/rank1'', ''debug_server/rank2'', ''debug_server/rank3''] ! 2 =
     ''debug_server/rank2'' \<and>
   map_option (\<lambda>kv. kv ''debug_server/rank3'')
     (net (snd (enable_debug_server (job_cfg\<lparr>RANK := 2\<rparr>) ''node2'' (Inr 4711) job_world))
        (''master'', 29500)) = Some (Some ''http://node3:4000'')"
proof -
  let ?wc = "job_cfg\<lparr>RANK := 2\<rparr>"
  let ?pub = "enable_debug_server ?wc ''node2'' (Inr 4711) job_world"
  let ?get = "fetch_all job_cfg job_post [0, 1, 2, 3] ''ping'' job_world"
  let ?keys = "[''debug_server/rank0'', ''debug_server/rank1'', ''debug_server/rank2'', ''debug_server/rank3'']"
  note scoped = debug_keys_scoped [of ?wc job_world "''node2''" "Inr 4711" job_cfg job_post
      "[0, 1, 2, 3]" "''ping''"]
  have store: "net job_world (MASTER_ADDR ?wc, MASTER_PORT ?wc) = Some job_store"
    by (simp add: job_world_def job_cfg_def)
  have port: "str_nat 4711 = ''4711''"
    by (simp add: str_nat.simps digit_char_def)
  have rk: "rank_key 0 = ''rank0''" "rank_key 1 = ''rank1''" "rank_key 2 = ''rank2''" "rank_key 3 = ''rank3''"
    by (simp_all add: rank_key_def str_int_def str_nat_digit digit_char_def)
  have keys: "map (\<lambda>r. ''debug_server/'' @ rank_key r) (range_py (WORLD_SIZE job_cfg)) = ?keys"
    by (simp add: job_cfg_def range_py_def upt_rec rk)
  have view: "tcpstore_client ?wc job_world = Return (PrefixStore ''debug_server'' (TCPStore ''master'' 29500))"
    by (simp add: tcpstore_client_def job_world_def job_cfg_def)
  from scoped view have c1: "full_key (PrefixStore ''debug_server'' (TCPStore ''master'' 29500)) ''rank2'' =
      ''debug_server/rank2''"
    by simp
  have c2: "trace (snd ?pub) =
     [WorkerServerStart 4711, StoreSet (''master'', 29500) ''debug_server/rank2'' ''http://node2:4711'']"
    using enable_debug_server_bound(2) [OF store, of "''node2''" 4711]
    by (simp add: port rk job_world_def job_cfg_def)
  have c3: "trace (snd ?get) = [StoreGet (''master'', 29500) ?keys]"
    unfolding snd_fetch_all keys by (simp add: job_world_def job_cfg_def)
  from scoped have "0 \<le> RANK ?wc \<and> RANK ?wc < WORLD_SIZE job_cfg \<longrightarrow>
      map (\<lambda>r. ''debug_server/'' @ rank_key r) (range_py (WORLD_SIZE job_cfg)) ! nat (RANK ?wc) =
        ''debug_server/'' @ rank_key (RANK ?wc)"
    by blast
  then have c4: "?keys ! 2 = ''debug_server/rank2''"
    unfolding keys by (simp add: job_cfg_def rk)
  from scoped have "\<forall>loc k. loc \<noteq> (MASTER_ADDR ?wc, MASTER_PORT ?wc) \<or>
        k \<noteq> ''debug_server/'' @ rank_key (RANK ?wc) \<longrightarrow>
      map_option (\<lambda>kv. kv k) (net (snd ?pub) loc) = map_option (\<lambda>kv. kv k) (net job_world loc)"
    by blast
  from this [rule_format, of "(''master'', 29500)" "''debug_server/rank3''"]
  have c5: "map_option (\<lambda>kv. kv ''debug_server/rank3'') (net (snd ?pub) (''master'', 29500)) =
      Some (Some ''http://node3:4000'')"
    by (simp add: rk job_world_def job_store_def)
  from c1 c2 c3 c4 c5 show ?thesis by blast
qed

subsection \<open>Publishing and resolving an address\<close>

lemma fst_multi_get_after_set:
  "net w (store_loc st) = Some kv \<Longrightarrow>
   fst (multi_get st ks (snd (store_set st k v w))) =
     (case those (map (\<lambda>k'. (kv(full_key st k \<mapsto> v)) (full_key st k')) ks) of
        None \<Rightarrow> Blocked | Some vs \<Rightarrow> Return vs)"
  by (simp add: multi_get_def store_set_def)

lemma fst_multi_get_reachable:
  "net w (store_loc st) = Some kv \<Longrightarrow>
   fst (multi_get st ks w) =
     (case those (map (\<lambda>k'. kv (full_key st k')) ks) of None \<Rightarrow> Blocked | Some vs \<Rightarrow> Return vs)"
  by (simp add: multi_get_def)

lemma publish_then_fetch:
  assumes same: "MASTER_ADDR cc = MASTER_ADDR wc" "MASTER_PORT cc = MASTER_PORT wc"
    and rank: "0 \<le> RANK wc" "RANK wc < WORLD_SIZE cc"
    and ret: "fst (fetch_all cc post order endpoint
                (snd (enable_debug_server wc host (Inr port) w))) = Return (addrs, resps)"
  shows "addrs ! nat (RANK wc) = ''http://'' @ host @ '':'' @ str_nat port @ ''/handler/'' @ endpoint"
proof -
  let ?w' = "snd (enable_debug_server wc host (Inr port) w)"
  let ?url = "''http://'' @ host @ '':'' @ str_nat port"
  let ?loc = "(MASTER_ADDR wc, MASTER_PORT wc)"
  from ret obtain kv' raw where
    kv': "net ?w' (MASTER_ADDR cc, MASTER_PORT cc) = Some kv'"
    and raw: "map (\<lambda>r. kv' (''debug_server/'' @ rank_key r)) (range_py (WORLD_SIZE cc)) = map Some raw"
    and addrs: "addrs = map (\<lambda>a. a @ ''/handler/'' @ endpoint) raw"
    unfolding fetch_all_Return_iff by blast
  have "net w ?loc \<noteq> None"
  proof
    assume none: "net w ?loc = None"
    then have "?w' = w" by (simp add: enable_debug_server_unreachable)
    with kv' none same show False by simp
  qed
  then obtain kv where kv: "net w ?loc = Some kv" by blast
  from enable_debug_server_bound(3) [OF kv, of host port] kv' same
  have kv'_eq: "kv' = kv(''debug_server/'' @ rank_key (RANK wc) \<mapsto> ?url)"
    by simp
  from raw have len: "length raw = length (range_py (WORLD_SIZE cc))"
    by (metis length_map)
  from rank have r: "nat (RANK wc) < length (range_py (WORLD_SIZE cc))"
    "range_py (WORLD_SIZE cc) ! nat (RANK wc) = RANK wc"
    by (simp_all add: length_range_py nth_range_py)
  from raw have "map (\<lambda>r. kv' (''debug_server/'' @ rank_key r)) (range_py (WORLD_SIZE cc)) ! nat (RANK wc)
      = map Some raw ! nat (RANK wc)"
    by simp
  with r len have "kv' (''debug_server/'' @ rank_key (RANK wc)) = Some (raw ! nat (RANK wc))"
    by simp
  with kv'_eq have "raw ! nat (RANK wc) = ?url" by simp
  with addrs r len show ?thesis by simp
qed

text \<open>
  C4. Round trip through the rendezvous store: when rank \<open>r\<close> publishes the address \<open>A\<close>
  under its key and the key of rank \<open>r\<close> is then resolved, the value resolved is exactly
  \<open>A\<close>. This holds for the read of the single key, and for the read of the keys of all
  ranks that \<open>fetch_all\<close> issues, at position \<open>r\<close>; and the publication of rank \<open>r\<close>
  does not change what the key of another rank resolves to. Through the two functions of
  the module: after \<open>enable_debug_server\<close> of a worker of rank \<open>r\<close> has bound its server
  to a port, the target address that a \<open>fetch_all\<close> against the same store returns at
  position \<open>r\<close> is the published address of that worker, followed by the handler path.
\<close>

theorem publish_resolve_roundtrip:
  assumes "net w (store_loc st) = Some kv"
  shows "fst (multi_get st [rank_key r] (snd (store_set st (rank_key r) A w))) = Return [A] \<and>
     (\<forall>n vs. 0 \<le> r \<and> r < n \<and>
        fst (multi_get st (map rank_key (range_py n)) (snd (store_set st (rank_key r) A w))) = Return vs
        \<longrightarrow> vs ! nat r = A) \<and>
     (\<forall>r'. r' \<noteq> r \<longrightarrow>
        fst (multi_get st [rank_key r'] (snd (store_set st (rank_key r) A w))) =
        fst (multi_get st [rank_key r'] w)) \<and>
     (\<forall>wc cc host port post order endpoint addrs resps.
        MASTER_ADDR cc = MASTER_ADDR wc \<and> MASTER_PORT cc = MASTER_PORT wc \<and>
        0 \<le> RANK wc \<and> RANK wc < WORLD_SIZE cc \<and>
        fst (fetch_all cc post order endpoint
               (snd (enable_debug_server wc host (Inr port) w))) = Return (addrs, resps) \<longrightarrow>
        addrs ! nat (RANK wc) =
          ''http://'' @ host @ '':'' @ str_nat port @ ''/handler/'' @ endpoint)"
proof (intro conjI allI impI)
  show "fst (multi_get st [rank_key r] (snd (store_set st (rank_key r) A w))) = Return [A]"
    by (simp add: fst_multi_get_after_set [OF assms])
next
  fix n vs
  assume h: "0 \<le> r \<and> r < n \<and>
        fst (multi_get st (map rank_key (range_py n)) (snd (store_set st (rank_key r) A w))) = Return vs"
  let ?kv' = "kv(full_key st (rank_key r) \<mapsto> A)"
  from h have "those (map (\<lambda>k'. ?kv' (full_key st k')) (map rank_key (range_py n))) = Some vs"
    by (simp add: fst_multi_get_after_set [OF assms] split: option.splits)
  then have eq: "map (\<lambda>k'. ?kv' (full_key st k')) (map rank_key (range_py n)) = map Some vs"
    by (simp only: those_eq_Some)
  from h have r: "nat r < length (range_py n)" "range_py n ! nat r = r"
    by (simp_all add: length_range_py nth_range_py)
  from eq have "map (\<lambda>k'. ?kv' (full_key st k')) (map rank_key (range_py n)) ! nat r = map Some vs ! nat r"
    by simp
  moreover from eq have "length vs = length (range_py n)"
    by (metis length_map)
  ultimately have "?kv' (full_key st (rank_key r)) = Some (vs ! nat r)"
    using r by simp
  then show "vs ! nat r = A" by simp
next
  fix r' :: int
  assume "r' \<noteq> r"
  then have "full_key st (rank_key r') \<noteq> full_key st (rank_key r)"
    by (simp add: full_key_inj rank_key_inj)
  then show "fst (multi_get st [rank_key r'] (snd (store_set st (rank_key r) A w))) =
        fst (multi_get st [rank_key r'] w)"
    by (simp add: fst_multi_get_after_set [OF assms] fst_multi_get_reachable [OF assms])
next
  fix wc cc :: config and host endpoint :: string and port :: nat
    and post :: "string \<Rightarrow> outcome" and order :: "nat list"
    and addrs :: "string list" and resps :: "outcome list"
  assume "MASTER_ADDR cc = MASTER_ADDR wc \<and> MASTER_PORT cc = MASTER_PORT wc \<and>
        0 \<le> RANK wc \<and> RANK wc < WORLD_SIZE cc \<and>
        fst (fetch_all cc post order endpoint
               (snd (enable_debug_server wc host (Inr port) w))) = Return (addrs, resps)"
  then show "addrs ! nat (RANK wc) =
          ''http://'' @ host @ '':'' @ str_nat port @ ''/handler/'' @ endpoint"
    using publish_then_fetch [of cc wc post order endpoint host port w addrs resps] by blast
qed

theorem publish_resolve_roundtrip_witness:
  "fst (multi_get (PrefixStore ''debug_server'' (TCPStore ''master'' 29500)) [rank_key 2]
     (snd (store_set (PrefixStore ''debug_server'' (TCPStore ''master'' 29500)) (rank_key 2)
        ''http://node2:4711'' job_world))) = Return [''http://node2:4711''] \<and>
   fst (multi_get (PrefixStore ''debug_server'' (TCPStore ''master'' 29500)) [rank_key 3]
     (snd (store_set (PrefixStore ''debug_server'' (TCPStore ''master'' 29500)) (rank_key 2)
        ''http://node2:4711'' job_world))) = Return [''http://node3:4000''] \<and>
   fst (fetch_all job_cfg job_post [0, 1, 2, 3] ''ping''
          (snd (enable_debug_server (job_cfg\<lparr>RANK := 2\<rparr>) ''node2'' (Inr 4711) job_world))) =
     Return ([''http://node0:4000/handler/ping'', ''http://node1:4000/handler/ping'',
              ''http://node2:4711/handler/ping'', ''http://node3:4000/handler/ping''],
             [Inr (Response 200 ''pong''), Inr (Response 404 ''no such handler''),
              Inr (Response 200 ''pong''), Inr (Response 200 ''pong'')]) \<and>
   [''http://node0:4000/handler/ping'', ''http://node1:4000/handler/ping'',
    ''http://node2:4711/handler/ping'', ''http://node3:4000/handler/ping''] ! nat 2 =
     ''http://'' @ ''node2'' @ '':'' @ str_nat 4711 @ ''/handler/'' @ ''ping''"
proof -
  let ?st = "PrefixStore ''debug_server'' (TCPStore ''master'' 29500)"
  let ?wc = "job_cfg\<lparr>RANK := 2\<rparr>"
  let ?w' = "snd (enable_debug_server ?wc ''node2'' (Inr 4711) job_world)"
  let ?raw = "[''http://node0:4000'', ''http://node1:4000'', ''http://node2:4711'', ''http://node3:4000'']"
  let ?addrs = "[''http://node0:4000/handler/ping'', ''http://node1:4000/handler/ping'',
    ''http://node2:4711/handler/ping'', ''http://node3:4000/handler/ping'']"
  have store: "net job_world (store_loc ?st) = Some job_store"
    by (simp add: job_world_def)
  have store': "net job_world (MASTER_ADDR ?wc, MASTER_PORT ?wc) = Some job_store"
    by (simp add: job_world_def job_cfg_def)
  have rk: "rank_key 0 = ''rank0''" "rank_key 1 = ''rank1''" "rank_key 2 = ''rank2''" "rank_key 3 = ''rank3''"
    by (simp_all add: rank_key_def str_int_def str_nat_digit digit_char_def)
  have port: "str_nat 4711 = ''4711''"
    by (simp add: str_nat.simps digit_char_def)
  note rt = publish_resolve_roundtrip [OF store, of 2 "''http://node2:4711''"]
  have other: "fst (multi_get ?st [rank_key 3] job_world) = Return [''http://node3:4000'']"
    by (simp add: multi_get_def job_world_def job_store_def rk)
  have net': "net ?w' (MASTER_ADDR job_cfg, MASTER_PORT job_cfg) =
      Some (job_store(''debug_server/rank2'' \<mapsto> ''http://node2:4711''))"
    unfolding enable_debug_server_bound(3) [OF store']
    by (simp add: rk port job_cfg_def)
  have keys: "map (\<lambda>r. (job_store(''debug_server/rank2'' \<mapsto> ''http://node2:4711''))
                      (''debug_server/'' @ rank_key r)) (range_py (WORLD_SIZE job_cfg)) = map Some ?raw"
    by (simp add: job_cfg_def range_py_def upt_rec rk job_store_def)
  have valid: "list_all utf8_valid ?raw"
    by (simp add: byte_in_def)
  have "length ?raw = 4" by simp
  moreover have "{..<4} \<subseteq> set [0, 1, 2, 3::nat]" by auto
  ultimately have fin: "{..<length ?raw} \<subseteq> set [0, 1, 2, 3::nat]" by (simp only:)
  have "fst (fetch_all job_cfg job_post [0, 1, 2, 3] ''ping'' ?w') =
      Return (map (\<lambda>a. a @ ''/handler/'' @ ''ping'') ?raw,
              map job_post (map (\<lambda>a. a @ ''/handler/'' @ ''ping'') ?raw))"
    unfolding fetch_all_Return_iff using net' keys valid fin by blast
  then have fetched: "fst (fetch_all job_cfg job_post [0, 1, 2, 3] ''ping'' ?w') =
      Return (?addrs,
             [Inr (Response 200 ''pong''), Inr (Response 404 ''no such handler''),
              Inr (Response 200 ''pong''), Inr (Response 200 ''pong'')])"
    by (simp add: job_post_def)
  have same: "MASTER_ADDR job_cfg = MASTER_ADDR ?wc \<and> MASTER_PORT job_cfg = MASTER_PORT ?wc \<and>
      0 \<le> RANK ?wc \<and> RANK ?wc < WORLD_SIZE job_cfg"
    by (simp add: job_cfg_def)
  from rt have "\<forall>wc cc host port post order endpoint addrs resps.
        MASTER_ADDR cc = MASTER_ADDR wc \<and> MASTER_PORT cc = MASTER_PORT wc \<and>
        0 \<le> RANK wc \<and> RANK wc < WORLD_SIZE cc \<and>
        fst (fetch_all cc post order endpoint
               (snd (enable_debug_server wc host (Inr port) job_world))) = Return (addrs, resps) \<longrightarrow>
        addrs ! nat (RANK wc) =
          ''http://'' @ host @ '':'' @ str_nat port @ ''/handler/'' @ endpoint"
    by blast
  from this [rule_format, of job_cfg ?wc job_post "[0, 1, 2, 3]" "''ping''" "''node2''" 4711] same fetched
  have nth: "?addrs ! nat (RANK ?wc) = ''http://'' @ ''node2'' @ '':'' @ str_nat 4711 @ ''/handler/'' @ ''ping''"
    by blast
  then have "?addrs ! nat 2 = ''http://'' @ ''node2'' @ '':'' @ str_nat 4711 @ ''/handler/'' @ ''ping''"
    by (simp add: job_cfg_def)
  with rt other fetched show ?thesis by simp
qed

end
